theory Spec2Isabelle
  imports Main
begin

section \<open>JavaScript values and the helpers the sources rely on\<close>

text \<open>
  JSON values: what \<open>JSON.parse\<close> returns and \<open>JSON.stringify\<close> takes.  Numbers are
  integers here (fractions and exponents are outside the model); an object is the list
  of its properties in the engine's enumeration order, each key once.
\<close>

datatype json =
    JNull
  | JBool bool
  | JNum int
  | JStr string
  | JArr "json list"
  | JObj "(string \<times> json) list"

text \<open>Truthiness, as \<open>!x\<close>, \<open>x || y\<close> and \<open>x && y\<close> test it.\<close>

fun js_truthy :: "json \<Rightarrow> bool" where
  "js_truthy JNull = False"
| "js_truthy (JBool b) = b"
| "js_truthy (JNum n) = (n \<noteq> 0)"
| "js_truthy (JStr s) = (s \<noteq> [])"
| "js_truthy (JArr xs) = True"
| "js_truthy (JObj kvs) = True"

text \<open>
  Reading a named property \<open>x.k\<close> of a value that is neither null nor undefined
  (\<open>None\<close> is undefined).  Only objects have the properties the sources read.
\<close>

fun js_get :: "string \<Rightarrow> json \<Rightarrow> json option" where
  "js_get k (JObj kvs) = map_of kvs k"
| "js_get k v = None"

text \<open>Reading index 0, \<open>x[0]\<close>: of an array, of a string (its first character), of an object.\<close>

fun js_index0 :: "json \<Rightarrow> json option" where
  "js_index0 (JArr []) = None"
| "js_index0 (JArr (x # xs)) = Some x"
| "js_index0 (JStr []) = None"
| "js_index0 (JStr (c # cs)) = Some (JStr [c])"
| "js_index0 (JObj kvs) = map_of kvs ''0''"
| "js_index0 v = None"

text \<open>Decimal digits of a number, as \<open>String\<close> prints an integer.\<close>

definition digit_char :: "nat \<Rightarrow> char" where
  "digit_char n = char_of (48 + n)"

function show_nat :: "nat \<Rightarrow> string" where
  "show_nat n = (if n < 10 then [digit_char n] else show_nat (n div 10) @ [digit_char (n mod 10)])"
  by pat_completeness auto
termination
  by (relation "measure (\<lambda>n. n)") auto

definition show_int :: "int \<Rightarrow> string" where
  "show_int i = (if i < 0 then CHR ''-'' # show_nat (nat (- i)) else show_nat (nat i))"

text \<open>\<open>xs.join(sep)\<close> on strings.\<close>

fun js_join :: "string \<Rightarrow> string list \<Rightarrow> string" where
  "js_join sep [] = []"
| "js_join sep [x] = x"
| "js_join sep (x # y # ys) = x @ sep @ js_join sep (y # ys)"

text \<open>
  \<open>String(v)\<close>: a string is itself, an array is its elements joined by commas with null
  elements empty, an object is \<open>[object Object]\<close>.
\<close>

fun js_String :: "json \<Rightarrow> string" where
  "js_String JNull = ''null''"
| "js_String (JBool b) = (if b then ''true'' else ''false'')"
| "js_String (JNum n) = show_int n"
| "js_String (JStr s) = s"
| "js_String (JArr xs) = js_join '','' (map (\<lambda>x. if x = JNull then [] else js_String x) xs)"
| "js_String (JObj kvs) = ''[object Object]''"

text \<open>
  \<open>Object.values(v)\<close>: the property values of an object, the elements of an array, the
  characters of a string, nothing for a number or a boolean; \<open>None\<close> is the TypeError
  it throws on null.
\<close>

fun Object_values :: "json \<Rightarrow> json list option" where
  "Object_values JNull = None"
| "Object_values (JObj kvs) = Some (map snd kvs)"
| "Object_values (JArr xs) = Some xs"
| "Object_values (JStr s) = Some (map (\<lambda>c. JStr [c]) s)"
| "Object_values v = Some []"

text \<open>
  The values a statement parameter takes when better-sqlite3 binds a JavaScript value
  (\<open>BindValueFromJS\<close>): null and undefined are NULL, every number is bound as a
  floating-point value, a string as text; a boolean, an array or an object cannot be
  bound (\<open>None\<close>).
\<close>

datatype sql_value = SqlNull | SqlReal int | SqlText string

fun bind_value :: "json option \<Rightarrow> sql_value option" where
  "bind_value None = Some SqlNull"
| "bind_value (Some JNull) = Some SqlNull"
| "bind_value (Some (JNum n)) = Some (SqlReal n)"
| "bind_value (Some (JStr s)) = Some (SqlText s)"
| "bind_value (Some v) = None"

text \<open>
  The text SQLite makes of a floating-point value that goes into a TEXT column or is
  compared with one (its \<open>%!.15g\<close>): for a whole number below \<open>10^15\<close> the digits and
  \<open>.0\<close>; from \<open>10^15\<close> on, fifteen significant digits (rounded half up, trailing zeros
  dropped but one) and the exponent.
\<close>

definition strip_zeros :: "string \<Rightarrow> string" where
  "strip_zeros s = rev (dropWhile (\<lambda>c. c = CHR ''0'') (rev s))"

function show_digits :: "int \<Rightarrow> string" where
  "show_digits n =
     (if n < 10 then [digit_char (nat n)]
      else show_digits (n div 10) @ [digit_char (nat (n mod 10))])"
  by pat_completeness auto
termination
  by (relation "measure nat") auto

definition sqlite_real_text :: "int \<Rightarrow> string" where
  "sqlite_real_text n =
     (let a = \<bar>n\<bar>;
          sign = (if n < 0 then ''-'' else [])
      in if a < 10 ^ 15 then sign @ show_digits a @ ''.0''
         else (let d = length (show_digits a);
                   r = (a + 5 * 10 ^ (d - 16)) div 10 ^ (d - 15);
                   m = (if r < 10 ^ 15 then r else r div 10);
                   e = (if r < 10 ^ 15 then d - 1 else d);
                   ds = show_digits m;
                   frac = strip_zeros (drop 1 ds)
               in sign @ take 1 ds @ ''.'' @ (if frac = [] then ''0'' else frac)
                  @ ''e+'' @ show_nat e))"

text \<open>What a TEXT column holds of a bound value, and what it is compared as.\<close>

fun column_text :: "sql_value \<Rightarrow> string option" where
  "column_text SqlNull = None"
| "column_text (SqlText s) = Some s"
| "column_text (SqlReal n) = Some (sqlite_real_text n)"

text \<open>
  The arguments of \<open>run\<close> and \<open>get\<close>: a JavaScript value as it comes (\<open>None\<close> is
  undefined), or a string or number the caller has built itself (\<open>Scalar\<close>), which always
  binds as one value.
\<close>

datatype bind_arg = Js "json option" | Scalar

text \<open>
  The binder of better-sqlite3 (\<open>Binder::BindArgs\<close>) on a statement with \<open>n\<close> anonymous
  parameters, \<open>k\<close> of them bound so far.  The arguments are taken in order: the elements
  of an array are bound one after the other, a plain object (which would carry named
  parameters; at most one may be given) binds none, any other value is bound itself.
  Binding refuses a value that cannot be bound, and a value beyond the last parameter.
  The result is the error thrown, or the count and the values bound for the \<open>Js\<close>
  arguments, in parameter order.
\<close>

fun bind_array :: "nat \<Rightarrow> nat \<Rightarrow> json list \<Rightarrow> string + (nat \<times> sql_value list)" where
  "bind_array n k [] = Inr (k, [])"
| "bind_array n k (x # xs) =
     (case bind_value (Some x) of
        None \<Rightarrow> Inl ''SQLite3 can only bind numbers, strings, bigints, buffers, and null''
      | Some v \<Rightarrow>
          if n \<le> k then Inl ''Too many parameter values were provided''
          else (case bind_array n (Suc k) xs of
                  Inl e \<Rightarrow> Inl e
                | Inr (k', vs) \<Rightarrow> Inr (k', v # vs)))"

fun bind_from :: "nat \<Rightarrow> nat \<Rightarrow> bool \<Rightarrow> bind_arg list \<Rightarrow> string + (nat \<times> sql_value list)" where
  "bind_from n k obj [] = Inr (k, [])"
| "bind_from n k obj (Scalar # args) =
     (if n \<le> k then Inl ''Too many parameter values were provided''
      else bind_from n (Suc k) obj args)"
| "bind_from n k obj (Js (Some (JArr xs)) # args) =
     (case bind_array n k xs of
        Inl e \<Rightarrow> Inl e
      | Inr (k', vs) \<Rightarrow>
          (case bind_from n k' obj args of
             Inl e \<Rightarrow> Inl e
           | Inr (k'', ws) \<Rightarrow> Inr (k'', vs @ ws)))"
| "bind_from n k obj (Js (Some (JObj kvs)) # args) =
     (if obj then Inl ''You cannot specify named parameters in two different objects''
      else bind_from n k True args)"
| "bind_from n k obj (Js v # args) =
     (case bind_value v of
        None \<Rightarrow> Inl ''SQLite3 can only bind numbers, strings, bigints, buffers, and null''
      | Some x \<Rightarrow>
          if n \<le> k then Inl ''Too many parameter values were provided''
          else (case bind_from n (Suc k) obj args of
                  Inl e \<Rightarrow> Inl e
                | Inr (k', ws) \<Rightarrow> Inr (k', x # ws)))"

text \<open>
  \<open>Binder::Bind\<close>: all arguments bound, the statement runs only when every parameter
  has a value.
\<close>

definition bind_args :: "nat \<Rightarrow> bind_arg list \<Rightarrow> string + sql_value list" where
  "bind_args n args =
     (case bind_from n 0 False args of
        Inl e \<Rightarrow> Inl e
      | Inr (k, vs) \<Rightarrow>
          if k < n then Inl ''Too few parameter values were provided'' else Inr vs)"

text \<open>ASCII digits, \<open>\d\<close> and \<open>[0-9]\<close> of the sources' regular expressions.\<close>

definition is_digit :: "char \<Rightarrow> bool" where
  "is_digit c = (c \<in> set ''0123456789'')"

text \<open>\<open>s.split(c)\<close> for a one-character separator: never empty, \<open>''''\<close> gives \<open>['''']\<close>.\<close>

fun js_split :: "char \<Rightarrow> string \<Rightarrow> string list" where
  "js_split sep [] = [[]]"
| "js_split sep (c # cs) =
     (if c = sep then [] # js_split sep cs
      else (case js_split sep cs of [] \<Rightarrow> [[c]] | x # xs \<Rightarrow> (c # x) # xs))"

text \<open>
  JavaScript numbers as far as the sources compute with them: an integer or NaN.
  \<open>Number(s)\<close> is modelled on strings of decimal digits (the value) and on the empty
  string (0); every other string is NaN here, so the model covers no sign, fraction,
  exponent, radix prefix or surrounding white space.
\<close>

datatype jsnum = Num int | NaN

definition digits_value :: "string \<Rightarrow> nat" where
  "digits_value s = foldl (\<lambda>n c. 10 * n + (of_char c - 48)) 0 s"

definition js_Number :: "string \<Rightarrow> jsnum" where
  "js_Number s = (if list_all is_digit s then Num (int (digits_value s)) else NaN)"

fun js_add :: "jsnum \<Rightarrow> jsnum \<Rightarrow> jsnum" where
  "js_add (Num a) (Num b) = Num (a + b)"
| "js_add x y = NaN"

fun js_mul :: "jsnum \<Rightarrow> jsnum \<Rightarrow> jsnum" where
  "js_mul (Num a) (Num b) = Num (a * b)"
| "js_mul x y = NaN"

text \<open>\<open>a >= b\<close> and \<open>a <= b\<close>: false when either side is NaN.\<close>

fun js_ge :: "jsnum \<Rightarrow> jsnum \<Rightarrow> bool" where
  "js_ge (Num a) (Num b) = (a \<ge> b)"
| "js_ge x y = False"

fun js_le :: "jsnum \<Rightarrow> jsnum \<Rightarrow> bool" where
  "js_le (Num a) (Num b) = (a \<le> b)"
| "js_le x y = False"

text \<open>
  The value of the \<open>i\<close>-th of the values bound (from 0); a parameter nothing was bound
  to is NULL.
\<close>

definition param :: "sql_value list \<Rightarrow> nat \<Rightarrow> sql_value" where
  "param vs i = (if i < length vs then vs ! i else SqlNull)"

section \<open>The work queue (lib/queue.js over the \<open>queue\<close> table of schema.sql)\<close>

text \<open>
  One row of the \<open>queue\<close> table.  \<open>id\<close> is the INTEGER PRIMARY KEY AUTOINCREMENT,
  \<open>available_at\<close> is the epoch in milliseconds, \<open>status\<close> is the TEXT column
  (queued, processing, done, failed).  The table is the list of its rows, in no
  particular order; the primary key makes the ids of a table distinct.
\<close>

record queue_row =
  q_id :: nat
  q_campaign_id :: nat
  q_target_id :: nat
  q_phone_id :: string
  q_available_at :: int
  q_attempts :: int
  q_status :: string

text \<open>What \<open>fetchBatch\<close> selects of a row: id, campaign_id, target_id, phone_id, attempts.\<close>

record job =
  j_id :: nat
  j_campaign_id :: nat
  j_target_id :: nat
  j_phone_id :: string
  j_attempts :: int

definition job_of :: "queue_row \<Rightarrow> job" where
  "job_of r = \<lparr>j_id = q_id r, j_campaign_id = q_campaign_id r, j_target_id = q_target_id r,
     j_phone_id = q_phone_id r, j_attempts = q_attempts r\<rparr>"

text \<open>
  AUTOINCREMENT gives a new row an id above every id used so far; rows are never
  deleted by this program, so that is one more than the largest id in the table.
\<close>

definition next_rowid :: "nat list \<Rightarrow> nat" where
  "next_rowid ids = Suc (fold max ids 0)"

text \<open>
  \<open>enqueueTarget\<close>: INSERT INTO queue (campaign_id, target_id, phone_id, available_at)
  with \<open>available_at = Date.now()\<close>; attempts and status take the schema's defaults.
\<close>

definition enqueueTarget :: "int \<Rightarrow> nat \<Rightarrow> nat \<Rightarrow> string \<Rightarrow> queue_row list \<Rightarrow> queue_row list" where
  "enqueueTarget now campaign_id target_id phone_id q =
     q @ [\<lparr>q_id = next_rowid (map q_id q), q_campaign_id = campaign_id, q_target_id = target_id,
            q_phone_id = phone_id, q_available_at = now, q_attempts = 0, q_status = ''queued''\<rparr>]"

text \<open>\<open>UPDATE queue SET status=? WHERE id=?\<close>.\<close>

definition set_queue_status :: "string \<Rightarrow> nat \<Rightarrow> queue_row list \<Rightarrow> queue_row list" where
  "set_queue_status s i q = map (\<lambda>r. if q_id r = i then r\<lparr>q_status := s\<rparr> else r) q"

text \<open>
  \<open>fetchBatch\<close>, one transaction: SELECT ... WHERE status='queued' AND available_at<=now
  ORDER BY id ASC LIMIT limit, then one UPDATE ... SET status='processing' WHERE id=?
  per selected id.  It returns the selected rows and leaves the updated table.  The
  limit is a row count.
\<close>

definition select_batch :: "int \<Rightarrow> nat \<Rightarrow> queue_row list \<Rightarrow> queue_row list" where
  "select_batch now limit q =
     take limit (sort_key q_id (filter (\<lambda>r. q_status r = ''queued'' \<and> q_available_at r \<le> now) q))"

definition fetchBatch :: "int \<Rightarrow> nat \<Rightarrow> queue_row list \<Rightarrow> job list \<times> queue_row list" where
  "fetchBatch now limit q =
     (let rows = select_batch now limit q;
          ids = map q_id rows
      in (map job_of rows,
          if ids \<noteq> [] then fold (set_queue_status ''processing'') ids q else q))"

text \<open>\<open>markDone\<close>: UPDATE queue SET status='done' WHERE id=?.\<close>

definition markDone :: "nat \<Rightarrow> queue_row list \<Rightarrow> queue_row list" where
  "markDone i q = set_queue_status ''done'' i q"

text \<open>
  \<open>markFailed\<close>: reads the row's attempts (0 when there is no such row), adds one, and
  writes status='queued', the new attempts and
  \<open>available_at = now + backoffMs * Math.min(attempts, 10)\<close>.
\<close>

definition markFailed :: "int \<Rightarrow> nat \<Rightarrow> int \<Rightarrow> queue_row list \<Rightarrow> queue_row list" where
  "markFailed now i backoffMs q =
     (let attempts = (case find (\<lambda>r. q_id r = i) q of None \<Rightarrow> 0 | Some r \<Rightarrow> q_attempts r) + 1;
          avail = now + backoffMs * min attempts 10
      in map (\<lambda>r. if q_id r = i
                   then r\<lparr>q_status := ''queued'', q_attempts := attempts, q_available_at := avail\<rparr>
                   else r) q)"

text \<open>
  The calls a process can make on the queue, to state properties of call sequences:
  \<open>run_op\<close> applies one call to the table, \<open>requeues i\<close> holds of the calls that put
  entry \<open>i\<close> back to queued (only \<open>markFailed\<close> does), and \<open>held i\<close> says that
  entry \<open>i\<close> is in the table and not queued.
\<close>

datatype queue_op = OpEnqueue int nat nat string | OpFetch int nat | OpDone nat | OpFailed int nat int

fun run_op :: "queue_op \<Rightarrow> queue_row list \<Rightarrow> queue_row list" where
  "run_op (OpEnqueue now c t p) q = enqueueTarget now c t p q"
| "run_op (OpFetch now limit) q = snd (fetchBatch now limit q)"
| "run_op (OpDone i) q = markDone i q"
| "run_op (OpFailed now i b) q = markFailed now i b q"

fun requeues :: "nat \<Rightarrow> queue_op \<Rightarrow> bool" where
  "requeues i (OpFailed now j b) = (j = i)"
| "requeues i _ = False"

definition held :: "nat \<Rightarrow> queue_row list \<Rightarrow> bool" where
  "held i q = (i \<in> set (map q_id q) \<and> list_all (\<lambda>r. q_id r = i \<longrightarrow> q_status r \<noteq> ''queued'') q)"

text \<open>
  The delay \<open>markFailed\<close> schedules for entry \<open>i\<close>: its new \<open>available_at\<close> minus
  \<open>now\<close> (\<open>None\<close> when the table has no such entry).
\<close>

definition retry_delay :: "int \<Rightarrow> nat \<Rightarrow> int \<Rightarrow> queue_row list \<Rightarrow> int option" where
  "retry_delay now i backoffMs q =
     map_option (\<lambda>r. q_available_at r - now) (find (\<lambda>r. q_id r = i) (markFailed now i backoffMs q))"

section \<open>The store (schema.sql) and the outside world\<close>

text \<open>
  Rows of the tables \<open>campaigns\<close>, \<open>campaign_targets\<close>, \<open>messages\<close>, \<open>events\<close> and
  \<open>senders\<close>.  A nullable TEXT column is a \<open>string option\<close>.  A timestamp column holds
  \<open>toISOString()\<close> of a clock reading; the model keeps the reading (epoch milliseconds).
  A column of JSON text (\<open>vars_json\<close>, \<open>meta_json\<close>, \<open>payload_json\<close>, \<open>result_json\<close>)
  is written with \<open>JSON.stringify\<close> only; the model keeps the value that text denotes.
\<close>

record campaign =
  c_id :: nat
  c_name :: string
  c_template_name :: string
  c_language :: string
  c_sender_phone_id :: string
  c_status :: string
  c_created_at :: int
  c_total_targets :: int
  c_meta_json :: "json option"

record target =
  t_id :: nat
  t_campaign_id :: nat
  t_phone :: string
  t_vars_json :: json
  t_status :: string
  t_last_error :: "string option"
  t_wa_message_id :: "string option"
  t_created_at :: int
  t_updated_at :: int

text \<open>One component of a template payload: \<open>{ type, parameters: [{ type: 'text', text }] }\<close>.\<close>

record component =
  cp_type :: string
  cp_parameters :: "string list"

record message =
  m_id :: nat
  m_campaign_id :: nat
  m_target_id :: nat
  m_payload_json :: "component list"
  m_result_json :: json
  m_created_at :: int

record event =
  e_id :: nat
  e_wa_message_id :: "string option"
  e_type :: string
  e_payload_json :: json
  e_created_at :: int

record sender =
  s_id :: nat
  s_phone_id :: string
  s_display :: "string option"
  s_qps :: int
  s_created_at :: int

text \<open>The arguments of one \<open>sendTemplate\<close> call, that is one POST to the messaging API.\<close>

record send_request =
  rq_phone_id :: string
  rq_token :: string
  rq_to :: string
  rq_template_name :: string
  rq_language :: string
  rq_components :: "component list"

text \<open>
  What the POST gives back: the response body of a 2xx answer, or a thrown error
  (network failure or another status) with the text the worker makes of it,
  \<open>(err.response.data && JSON.stringify(err.response.data)) || err.message\<close>.
\<close>

datatype http_reply = Http_ok json | Http_error string

text \<open>
  The state a run of the program acts on: the six tables, the requests sent to the
  messaging API so far, the comments pushed to the CRM so far (the target row and the
  payload they were made from), and the number of clock readings taken so far.
\<close>

record world =
  campaigns :: "campaign list"
  campaign_targets :: "target list"
  messages :: "message list"
  events :: "event list"
  senders :: "sender list"
  queue :: "queue_row list"
  wa_calls :: "send_request list"
  b24_comments :: "(target \<times> json) list"
  clock_reads :: nat

text \<open>A \<open>Date\<close>: the epoch in milliseconds and the local hours and minutes.\<close>

record date =
  d_epoch :: int
  d_hours :: nat
  d_minutes :: nat

text \<open>Reading the clock (\<open>new Date()\<close>, \<open>Date.now()\<close>): the next reading, and one more taken.\<close>

definition new_Date :: "(nat \<Rightarrow> date) \<Rightarrow> world \<Rightarrow> date \<times> world" where
  "new_Date clk w = (clk (clock_reads w), w\<lparr>clock_reads := Suc (clock_reads w)\<rparr>)"

text \<open>\<open>UPDATE campaign_targets SET ... WHERE id=?\<close>.\<close>

definition update_target :: "nat \<Rightarrow> (target \<Rightarrow> target) \<Rightarrow> target list \<Rightarrow> target list" where
  "update_target i f ts = map (\<lambda>t. if t_id t = i then f t else t) ts"

section \<open>The dispatch worker (worker.js with lib/wa.js)\<close>

text \<open>
  The worker's configuration and its two ways out of the process: the clock (the
  \<open>k\<close>-th reading of \<open>new Date()\<close> or \<open>Date.now()\<close>) and the messaging API (the answer
  to the \<open>k\<close>-th request).
\<close>

record worker_env =
  TOKEN :: string
  LANG :: string
  BATCH_SIZE :: nat
  WINDOW :: string
  clock :: "nat \<Rightarrow> date"
  wa_api :: "nat \<Rightarrow> send_request \<Rightarrow> http_reply"

text \<open>
  \<open>inWindow(now, windowStr)\<close> of lib/wa.js.  \<open>toMinutes\<close> splits at the colon and takes
  \<open>h * 60 + m\<close> of the first two pieces; a missing second piece is undefined, which
  makes the sum NaN.
\<close>

definition toMinutes :: "string \<Rightarrow> jsnum" where
  "toMinutes hhmm =
     (case map js_Number (js_split CHR '':'' hhmm) of
        h # m # rest \<Rightarrow> js_add (js_mul h (Num 60)) m
      | _ \<Rightarrow> NaN)"

definition inWindow :: "date \<Rightarrow> string \<Rightarrow> bool" where
  "inWindow now windowStr =
     (if windowStr = [] then True
      else (case js_split CHR ''-'' windowStr of
              start # end # rest \<Rightarrow>
                if start = [] \<or> end = [] then True
                else (let minutes = Num (int (d_hours now) * 60 + int (d_minutes now));
                          s = toMinutes start;
                          e = toMinutes end
                      in if js_ge e s then js_ge minutes s \<and> js_le minutes e
                         else js_ge minutes s \<or> js_le minutes e)
            | _ \<Rightarrow> True))"

text \<open>\<open>/^\d{7,15}$/.test(phone)\<close>: seven to fifteen characters, all of them digits.\<close>

definition phone_pattern :: "string \<Rightarrow> bool" where
  "phone_pattern s = (7 \<le> length s \<and> length s \<le> 15 \<and> list_all is_digit s)"

text \<open>\<open>resp?.messages?.[0]?.id || null\<close> (\<open>None\<close> is null).\<close>

definition wa_id_of :: "json \<Rightarrow> json option" where
  "wa_id_of resp =
     (case (if resp = JNull then None else js_get ''messages'' resp) of
        None \<Rightarrow> None
      | Some ms \<Rightarrow>
          (case (if ms = JNull then None else js_index0 ms) of
             None \<Rightarrow> None
           | Some m \<Rightarrow>
               (case (if m = JNull then None else js_get ''id'' m) of
                  None \<Rightarrow> None
                | Some v \<Rightarrow> if js_truthy v then Some v else None)))"

text \<open>
  The \<open>try\<close> block of one job, after the campaign, target and phone checks, in the
  order of its statements.  First the target is set to sending.
\<close>

definition mark_sending :: "worker_env \<Rightarrow> target \<Rightarrow> world \<Rightarrow> world" where
  "mark_sending env tgt w =
     (let (d1, w1) = new_Date (clock env) w
      in w1\<lparr>campaign_targets :=
              update_target (t_id tgt) (\<lambda>t. t\<lparr>t_status := ''sending'', t_updated_at := d_epoch d1\<rparr>)
                (campaign_targets w1)\<rparr>)"

text \<open>
  The components: the body parameters are \<open>String\<close> of each of \<open>Object.values\<close> of the
  target's variables, in one body component unless there is none.
\<close>

definition body_components :: "json list \<Rightarrow> component list" where
  "body_components vals =
     (let bodyParams = map js_String vals
      in if bodyParams \<noteq> [] then [\<lparr>cp_type = ''body'', cp_parameters = bodyParams\<rparr>] else [])"

text \<open>The arguments the worker gives \<open>sendTemplate\<close>.\<close>

definition request_for :: "worker_env \<Rightarrow> campaign \<Rightarrow> target \<Rightarrow> component list \<Rightarrow> send_request" where
  "request_for env camp tgt components =
     \<lparr>rq_phone_id = c_sender_phone_id camp, rq_token = TOKEN env,
      rq_to = t_phone tgt, rq_template_name = c_template_name camp,
      rq_language = (if c_language camp \<noteq> [] then c_language camp else LANG env),
      rq_components = components\<rparr>"

text \<open>
  The binding of \<open>run('sent', wa_id, nowIso, target.id)\<close> to the four parameters of
  \<open>UPDATE campaign_targets SET status=?, wa_message_id=?, updated_at=? WHERE id=?\<close>:
  the error thrown, or what the TEXT column \<open>wa_message_id\<close> gets.  The other three
  arguments are two strings and a number of the worker's.
\<close>

definition bind_wa_id :: "json option \<Rightarrow> string + string option" where
  "bind_wa_id wa_id =
     (case bind_args 4 [Scalar, Js wa_id, Scalar, Scalar] of
        Inl e \<Rightarrow> Inl e
      | Inr vs \<Rightarrow> Inr (column_text (param vs 0)))"

text \<open>
  What follows a 2xx answer: the message row is inserted, the target is set to sent with
  the message id, and the queue entry is marked done.  \<open>Inl\<close> is the error of binding
  the message id, thrown after the message row is in.
  (The rate-limit sleep that follows changes nothing in this state.)
\<close>

definition record_sent ::
  "worker_env \<Rightarrow> campaign \<Rightarrow> target \<Rightarrow> job \<Rightarrow> component list \<Rightarrow> json \<Rightarrow> world \<Rightarrow> (string \<times> world) + world" where
  "record_sent env camp tgt jb components resp w =
     (let wa_id = wa_id_of resp;
          (d2, w4) = new_Date (clock env) w;
          w5 = w4\<lparr>messages := messages w4 @
                 [\<lparr>m_id = next_rowid (map m_id (messages w4)), m_campaign_id = c_id camp,
                   m_target_id = t_id tgt, m_payload_json = components,
                   m_result_json = resp, m_created_at = d_epoch d2\<rparr>]\<rparr>
      in case bind_wa_id wa_id of
           Inl msg \<Rightarrow> Inl (msg, w5)
         | Inr v \<Rightarrow>
             Inr (w5\<lparr>campaign_targets :=
                       update_target (t_id tgt)
                         (\<lambda>t. t\<lparr>t_status := ''sent'', t_wa_message_id := v,
                                 t_updated_at := d_epoch d2\<rparr>)
                         (campaign_targets w5),
                     queue := markDone (j_id jb) (queue w5)\<rparr>))"

text \<open>
  The whole block.  \<open>Inr\<close> is the state when it completes, \<open>Inl\<close> the message of the
  error thrown and the state at that point: \<open>Object.values\<close> of null variables, a failed
  POST, or the binding error above.  The request is logged whether the POST succeeds or
  not.
\<close>

definition try_send :: "worker_env \<Rightarrow> campaign \<Rightarrow> target \<Rightarrow> job \<Rightarrow> world \<Rightarrow> (string \<times> world) + world" where
  "try_send env camp tgt jb w =
     (let w2 = mark_sending env tgt w
      in case Object_values (t_vars_json tgt) of
           None \<Rightarrow> Inl (''Cannot convert undefined or null to object'', w2)
         | Some vals \<Rightarrow>
             (let components = body_components vals;
                  req = request_for env camp tgt components;
                  w3 = w2\<lparr>wa_calls := wa_calls w2 @ [req]\<rparr>
              in case wa_api env (length (wa_calls w2)) req of
                   Http_error msg \<Rightarrow> Inl (msg, w3)
                 | Http_ok resp \<Rightarrow> record_sent env camp tgt jb components resp w3))"

text \<open>
  The \<open>catch\<close> block: the target is set to failed with the first 500 characters of the
  error text, and the queue entry is re-queued by \<open>markFailed(job.id, 3000)\<close>.
\<close>

definition catch_send :: "worker_env \<Rightarrow> target \<Rightarrow> job \<Rightarrow> string \<Rightarrow> world \<Rightarrow> world" where
  "catch_send env tgt jb msg w =
     (let (d1, w1) = new_Date (clock env) w;
          w2 = w1\<lparr>campaign_targets :=
                 update_target (t_id tgt)
                   (\<lambda>t. t\<lparr>t_status := ''failed'', t_last_error := Some (take 500 msg),
                           t_updated_at := d_epoch d1\<rparr>)
                   (campaign_targets w1)\<rparr>;
          (d2, w3) = new_Date (clock env) w2
      in w3\<lparr>queue := markFailed (d_epoch d2) (j_id jb) 3000 (queue w3)\<rparr>)"

text \<open>
  The body of the loop of \<open>tick\<close> for one claimed job: the campaign gate, the missing
  target, the phone check, then the send.
\<close>

definition process_job :: "worker_env \<Rightarrow> job \<Rightarrow> world \<Rightarrow> world" where
  "process_job env jb w =
     (case find (\<lambda>c. c_id c = j_campaign_id jb) (campaigns w) of
        None \<Rightarrow> w\<lparr>queue := markDone (j_id jb) (queue w)\<rparr>
      | Some camp \<Rightarrow>
          if c_status camp \<in> set [''paused'', ''canceled'', ''done'', ''error'']
          then w\<lparr>queue := markDone (j_id jb) (queue w)\<rparr>
          else (case find (\<lambda>t. t_id t = j_target_id jb) (campaign_targets w) of
                  None \<Rightarrow> w\<lparr>queue := markDone (j_id jb) (queue w)\<rparr>
                | Some tgt \<Rightarrow>
                    if \<not> phone_pattern (t_phone tgt)
                    then (let (d, w1) = new_Date (clock env) w
                          in w1\<lparr>campaign_targets :=
                                  update_target (t_id tgt)
                                    (\<lambda>t. t\<lparr>t_status := ''failed'',
                                            t_last_error := Some ''telefono_invalido'',
                                            t_updated_at := d_epoch d\<rparr>)
                                    (campaign_targets w1),
                                queue := markDone (j_id jb) (queue w1)\<rparr>)
                    else (case try_send env camp tgt jb w of
                            Inr w' \<Rightarrow> w'
                          | Inl (msg, w') \<Rightarrow> catch_send env tgt jb msg w')))"

text \<open>
  The sweep after the loop: when no queue entry is left that is not done, every running
  campaign with no target queued, sending or failed is set to done.
\<close>

definition set_campaign_status :: "string \<Rightarrow> nat \<Rightarrow> campaign list \<Rightarrow> campaign list" where
  "set_campaign_status s i cs = map (\<lambda>c. if c_id c = i then c\<lparr>c_status := s\<rparr> else c) cs"

definition targets_left :: "nat \<Rightarrow> target list \<Rightarrow> nat" where
  "targets_left cid ts =
     length (filter (\<lambda>t. t_campaign_id t = cid \<and> t_status t \<in> set [''queued'', ''sending'', ''failed'']) ts)"

definition sweep :: "world \<Rightarrow> world" where
  "sweep w =
     (let pending = length (filter (\<lambda>r. q_status r \<noteq> ''done'') (queue w))
      in if pending = 0
         then w\<lparr>campaigns :=
                  fold (\<lambda>cid cs. if targets_left cid (campaign_targets w) = 0
                                 then set_campaign_status ''done'' cid cs else cs)
                    (map c_id (filter (\<lambda>c. c_status c = ''running'') (campaigns w)))
                    (campaigns w)\<rparr>
         else w)"

text \<open>
  One \<open>tick\<close>: nothing outside the delivery window; else claim a batch, nothing more when
  it is empty; else the jobs in order, then the sweep.  A tick is run here from start to
  end on its own: what other ticks or requests do to the store while this one waits for
  the messaging API is outside the model.
\<close>

definition tick :: "worker_env \<Rightarrow> world \<Rightarrow> world" where
  "tick env w =
     (let (now, w0) = new_Date (clock env) w
      in if \<not> inWindow now (WINDOW env) then w0
         else (let (d, w1) = new_Date (clock env) w0;
                   (batch, q') = fetchBatch (d_epoch d) (BATCH_SIZE env) (queue w1);
                   w2 = w1\<lparr>queue := q'\<rparr>
               in if batch = [] then w2
                  else sweep (fold (process_job env) batch w2)))"

section \<open>Template placeholders (the send tool under tools/)\<close>




section \<open>Notions used to state the properties of the worker\<close>

text \<open>The state a fallible step ends in, whether it completed or threw.\<close>

definition result_world :: "(string \<times> world) + world \<Rightarrow> world" where
  "result_world r = (case r of Inl (msg, w) \<Rightarrow> w | Inr w \<Rightarrow> w)"


text \<open>The requests sent between an earlier state and a later one.\<close>

definition new_calls :: "world \<Rightarrow> world \<Rightarrow> send_request list" where
  "new_calls w w' = drop (length (wa_calls w)) (wa_calls w')"

text \<open>
  What a request is built from of a target: its id, its phone and its variables.  No
  statement of the worker writes these columns.
\<close>

definition target_key :: "target \<Rightarrow> nat \<times> string \<times> json" where
  "target_key t = (t_id t, t_phone t, t_vars_json t)"

text \<open>
  The requests a claimed job gives rise to, over the campaigns \<open>cs\<close> and the targets
  \<open>ts\<close>: one, when its campaign (by id) exists with a status other than paused,
  canceled, done and error, and its target (by id) exists with a phone matching the
  pattern and variables that are not null; none otherwise.
\<close>

definition job_requests :: "worker_env \<Rightarrow> campaign list \<Rightarrow> target list \<Rightarrow> job \<Rightarrow> send_request list" where
  "job_requests env cs ts jb =
     (case find (\<lambda>c. c_id c = j_campaign_id jb) cs of
        None \<Rightarrow> []
      | Some camp \<Rightarrow>
          if c_status camp \<in> set [''paused'', ''canceled'', ''done'', ''error''] then []
          else (case find (\<lambda>t. t_id t = j_target_id jb) ts of
                  None \<Rightarrow> []
                | Some tgt \<Rightarrow>
                    if \<not> phone_pattern (t_phone tgt) then []
                    else (case Object_values (t_vars_json tgt) of
                            None \<Rightarrow> []
                          | Some vals \<Rightarrow> [request_for env camp tgt (body_components vals)])))"

section \<open>The API server (server.js with lib/phone.js): campaign creation\<close>

text \<open>
  \<open>normalizePhone(raw, { defaultCountryCode })\<close> of lib/phone.js; \<open>None\<close> is a null or
  undefined \<open>raw\<close>.  Trimming before the non-digits are removed changes nothing, and
  \<open>\D\<close> and \<open>[^0-9]\<close> are the same set.
\<close>

definition normalizePhone :: "string option \<Rightarrow> string \<Rightarrow> string" where
  "normalizePhone raw defaultCountryCode =
     (case raw of
        None \<Rightarrow> []
      | Some r \<Rightarrow>
          (let cc = filter is_digit defaultCountryCode;
               digits0 = filter is_digit r
           in if digits0 = [] then []
              else (let digits1 = (if take 2 digits0 = ''00'' then drop 2 digits0 else digits0);
                        digits2 = (if take 1 digits1 = ''0'' \<and> cc \<noteq> []
                                   then cc @ drop 1 digits1 else digits1);
                        digits3 = (if cc \<noteq> [] \<and> take (length cc) digits2 \<noteq> cc \<and> length digits2 \<le> 10
                                   then cc @ digits2 else digits2)
                    in dropWhile (\<lambda>c. c = CHR ''0'') digits3)))"

text \<open>\<open>isLikelyValidPhone\<close>: the same pattern \<open>/^\d{7,15}$/\<close> the worker tests.\<close>

definition isLikelyValidPhone :: "string \<Rightarrow> bool" where
  "isLikelyValidPhone phone = phone_pattern phone"

text \<open>One entry of the \<open>targets\<close> argument: \<open>target?.phone\<close> and \<open>target?.vars\<close>.\<close>

record target_input =
  ti_phone :: "string option"
  ti_vars :: "json option"

text \<open>\<open>x || {}\<close> on an optional value.\<close>

definition or_empty_object :: "json option \<Rightarrow> json" where
  "or_empty_object v = (case v of None \<Rightarrow> JObj [] | Some x \<Rightarrow> if js_truthy x then x else JObj [])"

text \<open>
  \<open>normalizeTargets\<close>: the loop over the targets, with its two accumulators; an entry
  whose normalized phone fails the pattern is counted and left out.
\<close>

fun normalizeTargets_loop ::
  "string \<Rightarrow> target_input list \<Rightarrow> (string \<times> json) list \<Rightarrow> nat \<Rightarrow> (string \<times> json) list \<times> nat" where
  "normalizeTargets_loop cc [] normalized skipped = (normalized, skipped)"
| "normalizeTargets_loop cc (t # ts) normalized skipped =
     (let phone = normalizePhone (ti_phone t) cc
      in if \<not> isLikelyValidPhone phone
         then normalizeTargets_loop cc ts normalized (skipped + 1)
         else normalizeTargets_loop cc ts (normalized @ [(phone, or_empty_object (ti_vars t))]) skipped)"

definition normalizeTargets :: "string \<Rightarrow> target_input list \<Rightarrow> (string \<times> json) list \<times> nat" where
  "normalizeTargets cc targets = normalizeTargets_loop cc targets [] 0"

text \<open>
  The server's configuration.  \<open>DEFAULT_COUNTRY_CODE\<close> is the environment's value with the
  non-digits removed, empty when unset; \<open>WA_PHONE_NUMBER_ID\<close> is \<open>None\<close> when unset;
  \<open>SENDER_QPS\<close> is the number the setting denotes, \<open>None\<close> when unset or empty.
\<close>

record api_env =
  DEFAULT_COUNTRY_CODE :: string
  WA_PHONE_NUMBER_ID :: "string option"
  SENDER_QPS :: "int option"
  api_clock :: "nat \<Rightarrow> date"

text \<open>\<open>s.trim()\<close> on the ASCII white space: tab, line feed, vertical tab, form feed, carriage return, space.\<close>

definition is_space :: "char \<Rightarrow> bool" where
  "is_space c = (of_char c \<in> set [9, 10, 11, 12, 13, 32 :: nat])"

definition js_trim :: "string \<Rightarrow> string" where
  "js_trim s = rev (dropWhile is_space (rev (dropWhile is_space s)))"

text \<open>\<open>parseSenderId\<close> and \<open>parseSenderDisplay\<close> on a string or nothing: the trimmed text, or null when empty.\<close>

definition parseSenderId :: "string option \<Rightarrow> string option" where
  "parseSenderId raw =
     (case raw of None \<Rightarrow> None | Some s \<Rightarrow> if js_trim s = [] then None else Some (js_trim s))"

definition parseSenderDisplay :: "string option \<Rightarrow> string option" where
  "parseSenderDisplay raw =
     (case raw of None \<Rightarrow> None | Some s \<Rightarrow> if js_trim s = [] then None else Some (js_trim s))"

text \<open>What the creation of a campaign can throw.\<close>

datatype api_error = SenderNotConfigured | NoValidTargets

text \<open>
  \<open>ensureSender(phone_id, { display })\<close>: the requested sender or the configured one, else
  an error; the sender row is inserted when missing, else its display and qps are
  brought up to date.
\<close>

definition ensureSender :: "api_env \<Rightarrow> string option \<Rightarrow> string option \<Rightarrow> world \<Rightarrow> api_error + (string \<times> world)" where
  "ensureSender env phone_id display w =
     (case (case parseSenderId phone_id of Some r \<Rightarrow> Some r | None \<Rightarrow> parseSenderId (WA_PHONE_NUMBER_ID env)) of
        None \<Rightarrow> Inl SenderNotConfigured
      | Some resolved \<Rightarrow>
          (let existing = find (\<lambda>s. s_phone_id s = resolved) (senders w);
               existing_display = (case existing of None \<Rightarrow> None | Some s \<Rightarrow>
                                      (case s_display s of None \<Rightarrow> None | Some d \<Rightarrow> if d = [] then None else Some d));
               desiredDisplay = (case parseSenderDisplay display of Some d \<Rightarrow> d
                                 | None \<Rightarrow> (case existing_display of Some d \<Rightarrow> d | None \<Rightarrow> CHR ''+'' # resolved));
               desiredQps = (case SENDER_QPS env of Some n \<Rightarrow> n
                             | None \<Rightarrow> (case existing of None \<Rightarrow> 8 | Some s \<Rightarrow> if s_qps s \<noteq> 0 then s_qps s else 8))
           in case existing of
                None \<Rightarrow>
                  (let (d, w1) = new_Date (api_clock env) w
                   in Inr (resolved,
                        w1\<lparr>senders := senders w1 @
                             [\<lparr>s_id = next_rowid (map s_id (senders w1)), s_phone_id = resolved,
                               s_display = Some desiredDisplay, s_qps = desiredQps,
                               s_created_at = d_epoch d\<rparr>]\<rparr>))
              | Some s \<Rightarrow>
                  (let ss1 = (if desiredDisplay \<noteq> [] \<and> Some desiredDisplay \<noteq> s_display s
                              then map (\<lambda>x. if s_phone_id x = resolved then x\<lparr>s_display := Some desiredDisplay\<rparr> else x) (senders w)
                              else senders w);
                       ss2 = (if desiredQps \<noteq> 0 \<and> desiredQps \<noteq> s_qps s
                              then map (\<lambda>x. if s_phone_id x = resolved then x\<lparr>s_qps := desiredQps\<rparr> else x) ss1
                              else ss1)
                   in Inr (resolved, w\<lparr>senders := ss2\<rparr>))))"

text \<open>
  One \<open>INSERT INTO campaign_targets\<close> under \<open>UNIQUE(campaign_id, phone)\<close>: \<open>None\<close> is the
  SQLITE_CONSTRAINT_UNIQUE error, which the loop of \<open>createCampaignRecord\<close> catches.
\<close>

definition insert_target :: "nat \<Rightarrow> string \<Rightarrow> json \<Rightarrow> int \<Rightarrow> target list \<Rightarrow> target list option" where
  "insert_target cid phone vars now ts =
     (if list_ex (\<lambda>t. t_campaign_id t = cid \<and> t_phone t = phone) ts then None
      else Some (ts @ [\<lparr>t_id = next_rowid (map t_id ts), t_campaign_id = cid, t_phone = phone,
                         t_vars_json = vars, t_status = ''queued'', t_last_error = None,
                         t_wa_message_id = None, t_created_at = now, t_updated_at = now\<rparr>]))"

fun insert_targets :: "nat \<Rightarrow> int \<Rightarrow> (string \<times> json) list \<Rightarrow> target list \<Rightarrow> nat \<Rightarrow> target list \<times> nat" where
  "insert_targets cid now [] ts inserted = (ts, inserted)"
| "insert_targets cid now ((phone, vars) # rest) ts inserted =
     (case insert_target cid phone (or_empty_object (Some vars)) now ts of
        Some ts' \<Rightarrow> insert_targets cid now rest ts' (inserted + 1)
      | None \<Rightarrow> insert_targets cid now rest ts inserted)"

record create_result =
  cr_campaign_id :: nat
  cr_inserted :: nat
  cr_sender_phone_id :: string
  cr_skipped_invalid :: nat
  cr_duplicates :: int
  cr_sender_display :: "string option"

text \<open>The arguments of \<open>createCampaignRecord\<close>.\<close>

record create_args =
  ca_name :: string
  ca_template_name :: string
  ca_language :: string
  ca_targets :: "target_input list"
  ca_meta :: "json option"
  ca_sender_phone_id :: "string option"
  ca_sender_display :: "string option"

text \<open>
  \<open>createCampaignRecord\<close>.  \<open>Inl\<close> is the error thrown and the state it leaves (the
  sender row is written before the targets are looked at).  The transaction inserts the
  campaign as a draft with \<open>total_targets\<close> the number of normalized targets, inserts the
  targets one by one, skipping those the unique constraint refuses, and then sets
  \<open>total_targets\<close> to the number inserted.
\<close>

definition createCampaignRecord ::
  "api_env \<Rightarrow> create_args \<Rightarrow> world \<Rightarrow> (api_error \<times> world) + (create_result \<times> world)" where
  "createCampaignRecord env args w =
     (case ensureSender env (ca_sender_phone_id args) (ca_sender_display args) w of
        Inl err \<Rightarrow> Inl (err, w)
      | Inr (sender_phone_id, w1) \<Rightarrow>
          (let (normalizedTargets, skipped) = normalizeTargets (DEFAULT_COUNTRY_CODE env) (ca_targets args)
           in if normalizedTargets = [] then Inl (NoValidTargets, w1)
              else (let (d1, w2) = new_Date (api_clock env) w1;
                        campaign_id = next_rowid (map c_id (campaigns w2));
                        w3 = w2\<lparr>campaigns := campaigns w2 @
                               [\<lparr>c_id = campaign_id, c_name = ca_name args,
                                 c_template_name = ca_template_name args, c_language = ca_language args,
                                 c_sender_phone_id = sender_phone_id, c_status = ''draft'',
                                 c_created_at = d_epoch d1,
                                 c_total_targets = int (length normalizedTargets),
                                 c_meta_json = (case ca_meta args of None \<Rightarrow> None
                                                | Some m \<Rightarrow> if js_truthy m then Some m else None)\<rparr>]\<rparr>;
                        (d2, w4) = new_Date (api_clock env) w3;
                        (ts, inserted) = insert_targets campaign_id (d_epoch d2) normalizedTargets
                                           (campaign_targets w4) 0;
                        w5 = w4\<lparr>campaign_targets := ts,
                               campaigns := map (\<lambda>c. if c_id c = campaign_id
                                                       then c\<lparr>c_total_targets := int inserted\<rparr> else c)
                                              (campaigns w4)\<rparr>;
                        duplicates = int (length normalizedTargets) - int inserted;
                        senderRow = find (\<lambda>s. s_phone_id s = sender_phone_id) (senders w5)
                    in Inr (\<lparr>cr_campaign_id = campaign_id, cr_inserted = inserted,
                             cr_sender_phone_id = sender_phone_id, cr_skipped_invalid = skipped,
                             cr_duplicates = (if duplicates > 0 then duplicates else 0),
                             cr_sender_display =
                               (case senderRow of None \<Rightarrow> None
                                | Some s \<Rightarrow> (case s_display s of None \<Rightarrow> None
                                             | Some d \<Rightarrow> if d = [] then None else Some d))\<rparr>,
                            w5))))"

section \<open>Notions used to state the properties of campaign creation\<close>

text \<open>
  \<open>valid_input cc t\<close>: the phone of the entry passes normalization and the validity
  check.  \<open>normalized_inputs\<close>: what \<open>normalizeTargets\<close> keeps.  \<open>phones_of cid ts\<close>: the
  phones the table has under campaign \<open>cid\<close>.
\<close>

definition valid_input :: "string \<Rightarrow> target_input \<Rightarrow> bool" where
  "valid_input cc t = isLikelyValidPhone (normalizePhone (ti_phone t) cc)"

definition phones_of :: "nat \<Rightarrow> target list \<Rightarrow> string set" where
  "phones_of cid ts = t_phone ` {t \<in> set ts. t_campaign_id t = cid}"

definition normalized_inputs :: "string \<Rightarrow> target_input list \<Rightarrow> (string \<times> json) list" where
  "normalized_inputs cc ts =
     map (\<lambda>t. (normalizePhone (ti_phone t) cc, or_empty_object (ti_vars t))) (filter (valid_input cc) ts)"

section \<open>The API server: delivery-status callbacks (POST /webhooks/wa)\<close>

text \<open>
  What the status loop needs beside the store: the clock, and whether
  \<open>new Date(Number(timestamp) * 1000).toISOString()\<close> throws for a timestamp (an invalid
  time value), which \<open>buildStatusComment\<close> evaluates when the timestamp is truthy.
\<close>

record webhook_env =
  wh_clock :: "nat \<Rightarrow> date"
  invalid_time_value :: "json \<Rightarrow> bool"

text \<open>
  \<open>recordEvent({ waMessageId, type, payload })\<close>: the clock is read for \<open>created_at\<close>,
  then \<open>run(waMessageId, type, JSON.stringify(payload || {}), nowIso())\<close> binds the four
  parameters of \<open>INSERT INTO events (wa_message_id, type, payload_json, created_at)\<close>,
  the message id and the type as they come.  \<open>Inl\<close> is the error thrown, by the binder
  or by the NOT NULL constraint of \<open>type\<close>.
\<close>

definition recordEvent :: "webhook_env \<Rightarrow> json option \<Rightarrow> json \<Rightarrow> json \<Rightarrow> world \<Rightarrow> (string \<times> world) + world" where
  "recordEvent env waMessageId ty payload w =
     (let (d, w1) = new_Date (wh_clock env) w
      in case bind_args 4 [Js waMessageId, Js (Some ty), Scalar, Scalar] of
           Inl e \<Rightarrow> Inl (e, w1)
         | Inr vs \<Rightarrow>
             (case column_text (param vs 1) of
                None \<Rightarrow> Inl (''NOT NULL constraint failed: events.type'', w1)
              | Some tytext \<Rightarrow>
                  Inr (w1\<lparr>events := events w1 @
                         [\<lparr>e_id = next_rowid (map e_id (events w1)),
                           e_wa_message_id = column_text (param vs 0),
                           e_type = tytext,
                           e_payload_json = (if js_truthy payload then payload else JObj []),
                           e_created_at = d_epoch d\<rparr>]\<rparr>)))"

text \<open>
  The binding of \<open>get(messageId)\<close> to the parameter of
  \<open>SELECT * FROM campaign_targets WHERE wa_message_id=?\<close>: the error thrown, or the text
  the TEXT column is compared with (\<open>None\<close> is NULL, which equals nothing).
\<close>

definition bind_message_id :: "json \<Rightarrow> string + string option" where
  "bind_message_id messageId =
     (case bind_args 1 [Js (Some messageId)] of
        Inl e \<Rightarrow> Inl e
      | Inr vs \<Rightarrow> Inr (column_text (param vs 0)))"

text \<open>
  \<open>notifyBitrix(target, comment)\<close> pushes the comment when the target's variables carry
  \<open>_bitrix\<close> with a truthy \<open>entity\<close> and \<open>id\<close>; a failed push is logged and swallowed.  The
  model records the push with the target and the payload the comment was made from.
\<close>

definition extractBitrixMeta :: "target \<Rightarrow> json option" where
  "extractBitrixMeta tgt =
     (case (if t_vars_json tgt = JNull then None else js_get ''_bitrix'' (t_vars_json tgt)) of
        None \<Rightarrow> None
      | Some m \<Rightarrow> if js_truthy m then Some m else None)"

definition notifyBitrix :: "target \<Rightarrow> json \<Rightarrow> world \<Rightarrow> world" where
  "notifyBitrix tgt payload w =
     (case extractBitrixMeta tgt of
        None \<Rightarrow> w
      | Some meta \<Rightarrow>
          (case (js_get ''entity'' meta, js_get ''id'' meta) of
             (Some en, Some i) \<Rightarrow>
               if js_truthy en \<and> js_truthy i
               then w\<lparr>b24_comments := b24_comments w @ [(tgt, payload)]\<rparr> else w
           | _ \<Rightarrow> w))"

text \<open>
  The evaluation of \<open>buildStatusComment(target, status, ...)\<close> as far as the state sees
  it: a truthy timestamp is turned into a date, which can throw; otherwise the clock is
  read.  The text it builds is not modelled.
\<close>

definition buildStatusComment :: "webhook_env \<Rightarrow> json \<Rightarrow> world \<Rightarrow> (string \<times> world) + world" where
  "buildStatusComment env status w =
     (case js_get ''timestamp'' status of
        Some ts \<Rightarrow>
          if js_truthy ts
          then (if invalid_time_value env ts then Inl (''Invalid time value'', w) else Inr w)
          else Inr (snd (new_Date (wh_clock env) w))
      | None \<Rightarrow> Inr (snd (new_Date (wh_clock env) w)))"

text \<open>
  \<open>statusMap[status.status] || null\<close>: the four mapped names; a name that
  \<open>Object.prototype\<close> defines reads a function, which the UPDATE cannot bind.
\<close>

datatype mapped_status = Mapped string | Unbindable | Unmapped

definition statusMap :: "json option \<Rightarrow> mapped_status" where
  "statusMap v =
     (let k = (case v of None \<Rightarrow> ''undefined'' | Some x \<Rightarrow> js_String x)
      in if k \<in> set [''sent'', ''delivered'', ''read'', ''failed''] then Mapped k
         else if k \<in> set [''constructor'', ''toString'', ''toLocaleString'', ''valueOf'',
                           ''hasOwnProperty'', ''isPrototypeOf'', ''propertyIsEnumerable'',
                           ''__proto__'', ''__defineGetter__'', ''__defineSetter__'',
                           ''__lookupGetter__'', ''__lookupSetter__'']
         then Unbindable
         else Unmapped)"

text \<open>
  The error text of a failed status: the truthy \<open>title || message\<close> of each entry of
  \<open>errors\<close> joined by \<open>; \<close> when \<open>errors\<close> is an array (\<open>None\<close>: reading a property of a
  null entry throws), else \<open>status.status || ''\<close>.
\<close>

definition error_titles :: "json list \<Rightarrow> string option" where
  "error_titles es =
     (if JNull \<in> set es then None
      else Some (js_join ''; ''
             (map js_String
               (filter js_truthy
                 (map (\<lambda>e. case js_get ''title'' e of
                              Some t \<Rightarrow> if js_truthy t then t
                                        else (case js_get ''message'' e of Some m \<Rightarrow> m | None \<Rightarrow> JNull)
                            | None \<Rightarrow> (case js_get ''message'' e of Some m \<Rightarrow> m | None \<Rightarrow> JNull))
                      es)))))"

text \<open>\<open>status.status || 'status'\<close>, the type the event is recorded with.\<close>

definition status_type :: "json \<Rightarrow> json" where
  "status_type status =
     (case js_get ''status'' status of
        Some s \<Rightarrow> if js_truthy s then s else JStr ''status''
      | None \<Rightarrow> JStr ''status'')"

text \<open>
  One turn of the loop over \<open>value.statuses\<close>.  \<open>Inr\<close> is the state when the turn ends
  (also by \<open>continue\<close>), \<open>Inl\<close> the error thrown, which ends the request, and the state at
  that point.  A status without a truthy id is skipped; otherwise the event is recorded,
  and the target with that \<open>wa_message_id\<close> is looked up; without one the turn ends.
\<close>

definition handle_status :: "webhook_env \<Rightarrow> json \<Rightarrow> world \<Rightarrow> (string \<times> world) + world" where
  "handle_status env status w =
     (case (if status = JNull then None else js_get ''id'' status) of
        None \<Rightarrow> Inr w
      | Some messageId \<Rightarrow>
          if \<not> js_truthy messageId then Inr w
          else (let ty = status_type status
                in case recordEvent env (Some messageId) ty status w of
                     Inl e \<Rightarrow> Inl e
                   | Inr w1 \<Rightarrow>
                       (case bind_message_id messageId of
                          Inl e \<Rightarrow> Inl (e, w1)
                        | Inr mid \<Rightarrow>
                       (case find (\<lambda>t. mid \<noteq> None \<and> t_wa_message_id t = mid) (campaign_targets w1) of
                             None \<Rightarrow> Inr w1
                           | Some tgt \<Rightarrow>
                               (let (d, w2) = new_Date (wh_clock env) w1
                                in case statusMap (js_get ''status'' status) of
                                     Mapped newStatus \<Rightarrow>
                                       if newStatus = ''failed''
                                       then (case (case js_get ''errors'' status of
                                                     Some (JArr es) \<Rightarrow> error_titles es
                                                   | _ \<Rightarrow> Some (js_String ty)) of
                                               None \<Rightarrow> Inl (''Cannot read properties of null'', w2)
                                             | Some errText \<Rightarrow>
                                                 (let w3 = w2\<lparr>campaign_targets :=
                                                             update_target (t_id tgt)
                                                               (\<lambda>t. t\<lparr>t_status := ''failed'',
                                                                       t_last_error := Some (take 300 errText),
                                                                       t_updated_at := d_epoch d\<rparr>)
                                                               (campaign_targets w2)\<rparr>
                                                  in case buildStatusComment env status w3 of
                                                       Inl e \<Rightarrow> Inl e
                                                     | Inr w4 \<Rightarrow> Inr (notifyBitrix tgt status w4)))
                                       else (let w3 = w2\<lparr>campaign_targets :=
                                                         update_target (t_id tgt)
                                                           (\<lambda>t. t\<lparr>t_status := newStatus,
                                                                   t_updated_at := d_epoch d\<rparr>)
                                                           (campaign_targets w2)\<rparr>
                                             in case buildStatusComment env status w3 of
                                                  Inl e \<Rightarrow> Inl e
                                                | Inr w4 \<Rightarrow> Inr (notifyBitrix tgt status w4))
                                   | Unbindable \<Rightarrow>
                                       Inl (''SQLite3 can only bind numbers, strings, bigints, buffers, and null'', w2)
                                   | Unmapped \<Rightarrow>
                                       Inr (w2\<lparr>campaign_targets :=
                                                  update_target (t_id tgt) (\<lambda>t. t\<lparr>t_updated_at := d_epoch d\<rparr>)
                                                    (campaign_targets w2)\<rparr>))))))"

text \<open>The loop over the statuses of one change: it stops at the first error thrown.\<close>

fun handle_statuses :: "webhook_env \<Rightarrow> json list \<Rightarrow> world \<Rightarrow> (string \<times> world) + world" where
  "handle_statuses env [] w = Inr w"
| "handle_statuses env (s # ss) w =
     (case handle_status env s w of
        Inl e \<Rightarrow> Inl e
      | Inr w' \<Rightarrow> handle_statuses env ss w')"

section \<open>Concrete states used to exercise the theorems\<close>

definition wq :: "queue_row list" where
  "wq = [\<lparr>q_id = 4, q_campaign_id = 1, q_target_id = 14, q_phone_id = ''p'', q_available_at = 10, q_attempts = 0, q_status = ''queued''\<rparr>,
         \<lparr>q_id = 1, q_campaign_id = 1, q_target_id = 11, q_phone_id = ''p'', q_available_at = 50, q_attempts = 2, q_status = ''queued''\<rparr>,
         \<lparr>q_id = 5, q_campaign_id = 1, q_target_id = 15, q_phone_id = ''p'', q_available_at = 20, q_attempts = 0, q_status = ''queued''\<rparr>,
         \<lparr>q_id = 3, q_campaign_id = 1, q_target_id = 13, q_phone_id = ''p'', q_available_at = 5, q_attempts = 0, q_status = ''done''\<rparr>,
         \<lparr>q_id = 2, q_campaign_id = 1, q_target_id = 12, q_phone_id = ''p'', q_available_at = 500, q_attempts = 1, q_status = ''queued''\<rparr>]"

definition wops :: "queue_op list" where
  "wops = [OpDone 1, OpEnqueue 120 1 16 ''p'', OpFailed 130 5 3000, OpFetch 140 1]"

definition wjobs :: "job list" where
  "wjobs = [\<lparr>j_id = 1, j_campaign_id = 1, j_target_id = 11, j_phone_id = ''p'', j_attempts = 2\<rparr>,
            \<lparr>j_id = 4, j_campaign_id = 1, j_target_id = 14, j_phone_id = ''p'', j_attempts = 0\<rparr>]"

definition wq' :: "queue_row list" where
  "wq' = [\<lparr>q_id = 4, q_campaign_id = 1, q_target_id = 14, q_phone_id = ''p'', q_available_at = 10, q_attempts = 0, q_status = ''processing''\<rparr>,
         \<lparr>q_id = 1, q_campaign_id = 1, q_target_id = 11, q_phone_id = ''p'', q_available_at = 50, q_attempts = 2, q_status = ''processing''\<rparr>,
         \<lparr>q_id = 5, q_campaign_id = 1, q_target_id = 15, q_phone_id = ''p'', q_available_at = 20, q_attempts = 0, q_status = ''queued''\<rparr>,
         \<lparr>q_id = 3, q_campaign_id = 1, q_target_id = 13, q_phone_id = ''p'', q_available_at = 5, q_attempts = 0, q_status = ''done''\<rparr>,
         \<lparr>q_id = 2, q_campaign_id = 1, q_target_id = 12, q_phone_id = ''p'', q_available_at = 500, q_attempts = 1, q_status = ''queued''\<rparr>]"

definition wenv :: worker_env where
  "wenv = \<lparr>TOKEN = ''tok'', LANG = ''es'', BATCH_SIZE = 20, WINDOW = ''22:00-06:00'',
           clock = (\<lambda>k. \<lparr>d_epoch = 1000 + int k, d_hours = 23, d_minutes = 30\<rparr>),
           wa_api = (\<lambda>k rq. if rq_to rq = ''51918131082''
                              then Http_ok (JObj [(''messaging_product'', JStr ''whatsapp'')])
                              else Http_error ''boom'')\<rparr>"

definition wenv_noon :: worker_env where
  "wenv_noon = wenv\<lparr>clock := (\<lambda>k. \<lparr>d_epoch = 1000 + int k, d_hours = 12, d_minutes = 0\<rparr>)\<rparr>"

definition camp1 :: campaign where
  "camp1 = \<lparr>c_id = 1, c_name = ''octubre'', c_template_name = ''promo'', c_language = ''es'',
            c_sender_phone_id = ''857608144100041'', c_status = ''running'', c_created_at = 10,
            c_total_targets = 2, c_meta_json = None\<rparr>"

definition camp2 :: campaign where
  "camp2 = \<lparr>c_id = 2, c_name = ''pausada'', c_template_name = ''aviso'', c_language = ''es'',
            c_sender_phone_id = ''857608144100041'', c_status = ''paused'', c_created_at = 20,
            c_total_targets = 2, c_meta_json = None\<rparr>"

definition tgt1 :: target where
  "tgt1 = \<lparr>t_id = 1, t_campaign_id = 1, t_phone = ''51918131082'',
           t_vars_json = JObj [(''name'', JStr ''Ana'')], t_status = ''queued'', t_last_error = None,
           t_wa_message_id = None, t_created_at = 10, t_updated_at = 10\<rparr>"

definition tgt2 :: target where
  "tgt2 = \<lparr>t_id = 2, t_campaign_id = 1, t_phone = ''12345'',
           t_vars_json = JObj [], t_status = ''queued'', t_last_error = None,
           t_wa_message_id = None, t_created_at = 10, t_updated_at = 10\<rparr>"

definition tgt3 :: target where
  "tgt3 = \<lparr>t_id = 3, t_campaign_id = 2, t_phone = ''123'',
           t_vars_json = JObj [], t_status = ''queued'', t_last_error = None,
           t_wa_message_id = None, t_created_at = 20, t_updated_at = 20\<rparr>"

definition tgt4 :: target where
  "tgt4 = \<lparr>t_id = 4, t_campaign_id = 2, t_phone = ''51999888777'',
           t_vars_json = JObj [], t_status = ''queued'', t_last_error = None,
           t_wa_message_id = None, t_created_at = 20, t_updated_at = 20\<rparr>"

definition qrow :: "nat \<Rightarrow> nat \<Rightarrow> queue_row" where
  "qrow i c = \<lparr>q_id = i, q_campaign_id = c, q_target_id = i, q_phone_id = ''857608144100041'',
              q_available_at = 30, q_attempts = 0, q_status = ''queued''\<rparr>"

definition world0 :: world where
  "world0 = \<lparr>campaigns = [camp1, camp2], campaign_targets = [tgt1, tgt2, tgt3, tgt4],
             messages = [], events = [], senders = [],
             queue = [qrow 1 1, qrow 2 1, qrow 3 2, qrow 4 2],
             wa_calls = [], b24_comments = [], clock_reads = 0\<rparr>"


text \<open>The same store, the paused campaign using the template of the running one.\<close>

definition world_twin :: world where
  "world_twin = world0\<lparr>campaigns := [camp1, camp2\<lparr>c_template_name := ''promo''\<rparr>]\<rparr>"

definition aenv :: api_env where
  "aenv = \<lparr>DEFAULT_COUNTRY_CODE = ''51'', WA_PHONE_NUMBER_ID = Some ''857608144100041'',
           SENDER_QPS = None,
           api_clock = (\<lambda>k. \<lparr>d_epoch = 5000 + int k, d_hours = 10, d_minutes = 0\<rparr>)\<rparr>"

definition aenv_no_cc :: api_env where
  "aenv_no_cc = aenv\<lparr>DEFAULT_COUNTRY_CODE := []\<rparr>"

definition args_mixed :: create_args where
  "args_mixed = \<lparr>ca_name = ''noviembre'', ca_template_name = ''promo'', ca_language = ''es'',
      ca_targets = [\<lparr>ti_phone = Some ''51918131082'', ti_vars = None\<rparr>,
                    \<lparr>ti_phone = Some ''+51 918 131 082'', ti_vars = None\<rparr>,
                    \<lparr>ti_phone = Some ''(01) 234'', ti_vars = None\<rparr>,
                    \<lparr>ti_phone = Some ''51999888777'', ti_vars = None\<rparr>],
      ca_meta = None, ca_sender_phone_id = None, ca_sender_display = None\<rparr>"

definition args_pair :: create_args where
  "args_pair = args_mixed\<lparr>ca_targets := [\<lparr>ti_phone = Some ''+51918131082'', ti_vars = None\<rparr>,
                                          \<lparr>ti_phone = Some ''918131082'', ti_vars = None\<rparr>]\<rparr>"

definition args_none_valid :: create_args where
  "args_none_valid = args_mixed\<lparr>ca_targets := [\<lparr>ti_phone = Some ''(01) 234'', ti_vars = None\<rparr>,
                                               \<lparr>ti_phone = None, ti_vars = None\<rparr>]\<rparr>"

definition world0_sender :: world where
  "world0_sender = world0\<lparr>clock_reads := 1,
      senders := [\<lparr>s_id = 1, s_phone_id = ''857608144100041'', s_display = Some ''+857608144100041'',
                   s_qps = 8, s_created_at = 5000\<rparr>]\<rparr>"

definition valid_mixed :: "target_input list" where
  "valid_mixed = filter (valid_input (DEFAULT_COUNTRY_CODE aenv)) (ca_targets args_mixed)"

definition phones_mixed :: "string list" where
  "phones_mixed = map (\<lambda>t. normalizePhone (ti_phone t) (DEFAULT_COUNTRY_CODE aenv)) valid_mixed"

definition valid_none :: "target_input list" where
  "valid_none = filter (valid_input (DEFAULT_COUNTRY_CODE aenv)) (ca_targets args_none_valid)"

definition phones_none :: "string list" where
  "phones_none = map (\<lambda>t. normalizePhone (ti_phone t) (DEFAULT_COUNTRY_CODE aenv)) valid_none"

subsection \<open>A status callback after one message was sent\<close>

text \<open>
  The first target of \<open>world0\<close> has been sent as \<open>wamid.A\<close>; the callbacks report a
  message nobody sent (once with a text id, once with a numeric one) and the one sent;
  one status has no id and one has a boolean for its type.  In \<open>world_real\<close> the first
  target holds the text of the number 42 as its message id.
\<close>

definition whenv :: webhook_env where
  "whenv = \<lparr>wh_clock = (\<lambda>k. \<lparr>d_epoch = 9000 + int k, d_hours = 11, d_minutes = 15\<rparr>),
            invalid_time_value = (\<lambda>ts. False)\<rparr>"

definition world_sent :: world where
  "world_sent = world0\<lparr>campaign_targets :=
      [tgt1\<lparr>t_status := ''sent'', t_wa_message_id := Some ''wamid.A''\<rparr>, tgt2, tgt3, tgt4]\<rparr>"

definition status_unknown :: json where
  "status_unknown = JObj [(''id'', JStr ''wamid.UNKNOWN''), (''status'', JStr ''delivered''),
                          (''timestamp'', JStr ''1700000000''), (''recipient_id'', JStr ''51918131082'')]"

definition status_unknown_failed :: json where
  "status_unknown_failed = JObj [(''id'', JNum 42), (''status'', JStr ''failed''),
                                 (''errors'', JArr [JObj [(''title'', JStr ''Message undeliverable'')]])]"

definition status_known :: json where
  "status_known = JObj [(''id'', JStr ''wamid.A''), (''status'', JStr ''delivered''),
                        (''timestamp'', JStr ''1700000000'')]"

definition status_no_id :: json where
  "status_no_id = JObj [(''status'', JStr ''delivered''), (''timestamp'', JStr ''1700000000'')]"

definition status_bool_type :: json where
  "status_bool_type = JObj [(''id'', JStr ''wamid.UNKNOWN''), (''status'', JBool True)]"

definition world_known :: world where
  "world_known = result_world (handle_statuses whenv [status_known] world_sent)"

definition world_real :: world where
  "world_real = world0\<lparr>campaign_targets :=
      [tgt1\<lparr>t_status := ''sent'', t_wa_message_id := Some ''42.0''\<rparr>, tgt2, tgt3, tgt4]\<rparr>"

section \<open>Properties of the work queue\<close>

lemma distinct_map_sort_key:
  "distinct (map f xs) \<Longrightarrow> distinct (map f (sort_key g xs))"
proof -
  assume d: "distinct (map f xs)"
  have "card (set (map f (sort_key g xs))) = card (set (map f xs))" by simp
  also have "\<dots> = length (map f xs)" using d by (rule distinct_card)
  also have "\<dots> = length (map f (sort_key g xs))" by simp
  finally show ?thesis by (rule card_distinct)
qed

lemma ids_select: 
  assumes "distinct (map q_id q)"
  shows "map q_id (sort_key q_id (filter P q)) = sorted_list_of_set (q_id ` {r \<in> set q. P r})"
proof -
  let ?ys = "map q_id (sort_key q_id (filter P q))"
  have d: "distinct (map q_id (filter P q))" using assms by (simp add: distinct_map_filter)
  have "sorted ?ys" by (rule sorted_sort_key)
  moreover have "distinct ?ys" using d by (rule distinct_map_sort_key)
  ultimately have "sorted_list_of_set (set ?ys) = ?ys"
    by (rule sorted_list_of_set.idem_if_sorted_distinct)
  moreover have "set ?ys = q_id ` {r \<in> set q. P r}" by auto
  ultimately show ?thesis by simp
qed

lemma fold_set_status:
  "fold (set_queue_status s) ids q = map (\<lambda>r. if q_id r \<in> set ids then r\<lparr>q_status := s\<rparr> else r) q"
proof (induction ids arbitrary: q)
  case Nil
  then show ?case by (simp add: map_idI)
next
  case (Cons i ids)
  show ?case
    by (simp add: Cons.IH) (auto simp: set_queue_status_def)
qed

lemma fetchBatch_table:
  "snd (fetchBatch now limit q) =
     map (\<lambda>r. if q_id r \<in> j_id ` set (fst (fetchBatch now limit q)) then r\<lparr>q_status := ''processing''\<rparr> else r) q"
  by (simp add: fetchBatch_def Let_def fold_set_status image_image job_of_def)

lemma fetchBatch_ids:
  "map j_id (fst (fetchBatch now limit q)) = map q_id (select_batch now limit q)"
  by (simp add: fetchBatch_def Let_def job_of_def o_def)

lemma select_batch_subset:
  "set (select_batch now limit q) \<subseteq> {r \<in> set q. q_status r = ''queued'' \<and> q_available_at r \<le> now}"
  unfolding select_batch_def by (auto dest: in_set_takeD)

lemma fetched_was_queued:
  "i \<in> j_id ` set (fst (fetchBatch now limit q)) \<Longrightarrow> \<exists>r\<in>set q. q_id r = i \<and> q_status r = ''queued''"
proof -
  assume "i \<in> j_id ` set (fst (fetchBatch now limit q))"
  then have "i \<in> set (map j_id (fst (fetchBatch now limit q)))" by simp
  then have "i \<in> q_id ` set (select_batch now limit q)" by (simp add: fetchBatch_ids)
  then show ?thesis using select_batch_subset[of now limit q] by auto
qed

lemma held_not_fetched:
  assumes "held i q"
  shows "i \<notin> j_id ` set (fst (fetchBatch now limit q))"
proof
  assume "i \<in> j_id ` set (fst (fetchBatch now limit q))"
  then obtain r where "r \<in> set q" "q_id r = i" "q_status r = ''queued''"
    using fetched_was_queued by blast
  then show False using assms by (auto simp: held_def list_all_iff)
qed

lemma held_after_fetch:
  assumes "i \<in> j_id ` set (fst (fetchBatch now limit q))"
  shows "held i (snd (fetchBatch now limit q))"
proof -
  obtain r where "r \<in> set q" "q_id r = i" using fetched_was_queued[OF assms] by blast
  then have "i \<in> set (map q_id (snd (fetchBatch now limit q)))"
    by (subst fetchBatch_table) (force simp: image_iff)
  moreover have "list_all (\<lambda>r. q_id r = i \<longrightarrow> q_status r \<noteq> ''queued'') (snd (fetchBatch now limit q))"
    using assms by (subst fetchBatch_table) (auto simp: list_all_iff)
  ultimately show ?thesis by (simp add: held_def)
qed

lemma le_fold_max: "x \<in> set xs \<Longrightarrow> x \<le> fold max xs (m::nat)"
proof (induction xs arbitrary: m)
  case Nil then show ?case by simp
next
  case (Cons y ys)
  have mono: "\<And>a. a \<le> fold max ys a"
  proof -
    fix a :: nat show "a \<le> fold max ys a"
      by (induction ys arbitrary: a) (auto intro: order_trans[OF max.cobounded2])
  qed
  show ?case
  proof (cases "x = y")
    case True
    have "y \<le> max y m" by simp
    also have "\<dots> \<le> fold max ys (max y m)" by (rule mono)
    finally show ?thesis using True by simp
  next
    case False
    then have "x \<in> set ys" using Cons.prems by simp
    then show ?thesis using Cons.IH by simp
  qed
qed

lemma next_rowid_fresh: "next_rowid ids \<notin> set ids"
  using le_fold_max[of "next_rowid ids" ids 0] by (auto simp: next_rowid_def)

lemma held_run_op:
  assumes "held i q" "\<not> requeues i op"
  shows "held i (run_op op q)"
proof (cases op)
  case (OpEnqueue now c t p)
  have "next_rowid (map q_id q) \<noteq> i" using assms(1) next_rowid_fresh[of "map q_id q"]
    by (auto simp: held_def)
  then show ?thesis using assms(1) OpEnqueue by (auto simp: held_def enqueueTarget_def)
next
  case (OpFetch now limit)
  have "i \<in> set (map q_id (snd (fetchBatch now limit q)))"
    using assms(1) by (subst fetchBatch_table) (force simp: held_def image_iff)
  moreover have "list_all (\<lambda>r. q_id r = i \<longrightarrow> q_status r \<noteq> ''queued'') (snd (fetchBatch now limit q))"
    using assms(1) by (subst fetchBatch_table) (auto simp: list_all_iff held_def)
  ultimately show ?thesis using OpFetch by (simp add: held_def)
next
  case (OpDone j)
  then show ?thesis using assms(1)
    by (force simp: held_def markDone_def set_queue_status_def list_all_iff image_iff)
next
  case (OpFailed now j b)
  then have "j \<noteq> i" using assms(2) by simp
  then show ?thesis using assms(1) OpFailed
    by (force simp: held_def markFailed_def Let_def list_all_iff image_iff)
qed

lemma held_fold_run_op:
  "held i q \<Longrightarrow> list_all (\<lambda>op. \<not> requeues i op) ops \<Longrightarrow> held i (fold run_op ops q)"
  by (induction ops arbitrary: q) (auto intro: held_run_op)


text \<open>
  Claim C1.  On a table with distinct ids, \<open>fetchBatch now limit\<close> returns the entries
  whose ids are the first at most \<open>limit\<close>, in ascending order, of the ids of the entries
  with status queued and \<open>available_at \<le> now\<close>; every returned job is the projection of
  a row of the table; the table it leaves is the old one with exactly the returned
  entries set to processing and nothing else changed; and an entry it returned is
  returned by no later \<open>fetchBatch\<close>, at any time and with any limit, after any sequence
  of queue calls that does not re-queue it (\<open>markFailed\<close> on that entry).
\<close>

theorem fetchBatch_exclusive_claim:
  assumes "distinct (map q_id q)" and "fetchBatch now limit q = (jobs, q')"
  shows "map j_id jobs =
           take limit (sorted_list_of_set
             {q_id r |r. r \<in> set q \<and> q_status r = ''queued'' \<and> q_available_at r \<le> now})
       \<and> set jobs \<subseteq> job_of ` set q
       \<and> q' = map (\<lambda>r. if q_id r \<in> j_id ` set jobs then r\<lparr>q_status := ''processing''\<rparr> else r) q
       \<and> (i \<in> j_id ` set jobs \<and> list_all (\<lambda>op. \<not> requeues i op) ops
            \<longrightarrow> i \<notin> j_id ` set (fst (fetchBatch now2 limit2 (fold run_op ops q'))))"
proof -
  have j: "jobs = fst (fetchBatch now limit q)" and q': "q' = snd (fetchBatch now limit q)"
    using assms(2) by simp_all
  have "map j_id jobs = map q_id (select_batch now limit q)"
    unfolding j by (rule fetchBatch_ids)
  also have "\<dots> = take limit (map q_id (sort_key q_id
        (filter (\<lambda>r. q_status r = ''queued'' \<and> q_available_at r \<le> now) q)))"
    by (simp add: select_batch_def take_map)
  also have "\<dots> = take limit (sorted_list_of_set
        (q_id ` {r \<in> set q. q_status r = ''queued'' \<and> q_available_at r \<le> now}))"
    by (simp only: ids_select[OF assms(1)])
  also have "q_id ` {r \<in> set q. q_status r = ''queued'' \<and> q_available_at r \<le> now}
      = {q_id r |r. r \<in> set q \<and> q_status r = ''queued'' \<and> q_available_at r \<le> now}"
    by auto
  finally have one: "map j_id jobs = take limit (sorted_list_of_set
        {q_id r |r. r \<in> set q \<and> q_status r = ''queued'' \<and> q_available_at r \<le> now})" .
  have two: "set jobs \<subseteq> job_of ` set q"
    unfolding j using select_batch_subset[of now limit q] by (auto simp: fetchBatch_def Let_def)
  have three: "q' = map (\<lambda>r. if q_id r \<in> j_id ` set jobs then r\<lparr>q_status := ''processing''\<rparr> else r) q"
    unfolding j q' by (rule fetchBatch_table)
  have four: "i \<notin> j_id ` set (fst (fetchBatch now2 limit2 (fold run_op ops q')))"
    if "i \<in> j_id ` set jobs" and "list_all (\<lambda>op. \<not> requeues i op) ops"
  proof -
    have "held i q'" using that(1) unfolding j q' by (rule held_after_fetch)
    then have "held i (fold run_op ops q')" using that(2) by (rule held_fold_run_op)
    then show ?thesis by (rule held_not_fetched)
  qed
  show ?thesis using one two three four by blast
qed

theorem fetchBatch_exclusive_claim_witness:
  "distinct (map q_id wq)
   \<and> fetchBatch 100 2 wq = (wjobs, wq')
   \<and> 1 \<in> j_id ` set wjobs
   \<and> list_all (\<lambda>op. \<not> requeues 1 op) wops
   \<and> map j_id (fst (fetchBatch 99999 10 (fold run_op wops wq'))) = [2, 5]
   \<and> 1 \<notin> j_id ` set (fst (fetchBatch 99999 10 (fold run_op wops wq')))"
proof -
  have d: "distinct (map q_id wq)" by (simp add: wq_def)
  have f: "fetchBatch 100 2 wq = (wjobs, wq')"
    by (simp add: wq_def wjobs_def wq'_def fetchBatch_def select_batch_def set_queue_status_def job_of_def)
  have m: "1 \<in> j_id ` set wjobs" by (simp add: wjobs_def)
  have l: "list_all (\<lambda>op. \<not> requeues 1 op) wops" by (simp add: wops_def)
  have g: "map j_id (fst (fetchBatch 99999 10 (fold run_op wops wq'))) = [2, 5]"
    by (simp add: wq'_def wops_def fetchBatch_def select_batch_def set_queue_status_def job_of_def
          markDone_def markFailed_def enqueueTarget_def next_rowid_def)
  have "1 \<in> j_id ` set wjobs \<and> list_all (\<lambda>op. \<not> requeues 1 op) wops
        \<longrightarrow> 1 \<notin> j_id ` set (fst (fetchBatch 99999 10 (fold run_op wops wq')))"
    using fetchBatch_exclusive_claim[OF d f, of 1 wops 99999 10] by (elim conjE)
  with d f m l g show ?thesis by blast
qed


lemma find_unique:
  "distinct (map q_id q) \<Longrightarrow> r \<in> set q \<Longrightarrow> find (\<lambda>x. q_id x = q_id r) q = Some r"
  by (induction q) (auto simp: image_iff)

lemma find_map_upd:
  "find (\<lambda>x. q_id x = i) q = Some r \<Longrightarrow> q_id (f r) = i \<Longrightarrow>
   find (\<lambda>x. q_id x = i) (map (\<lambda>x. if q_id x = i then f x else x) q) = Some (f r)"
  by (induction q) (auto split: if_splits)

lemma markFailed_row:
  assumes "distinct (map q_id q)" and "r \<in> set q"
  shows "markFailed now (q_id r) b q =
           map (\<lambda>x. if q_id x = q_id r
                    then x\<lparr>q_status := ''queued'', q_attempts := q_attempts r + 1,
                           q_available_at := now + b * min (q_attempts r + 1) 10\<rparr>
                    else x) q"
  by (simp add: markFailed_def Let_def find_unique[OF assms])

lemma retry_delay_row:
  assumes "distinct (map q_id q)" and "r \<in> set q"
  shows "retry_delay now (q_id r) b q = Some (b * min (q_attempts r + 1) 10)"
proof -
  have "find (\<lambda>x. q_id x = q_id r) (markFailed now (q_id r) b q)
      = Some (r\<lparr>q_status := ''queued'', q_attempts := q_attempts r + 1,
                           q_available_at := now + b * min (q_attempts r + 1) 10\<rparr>)"
    unfolding markFailed_row[OF assms]
    by (rule find_map_upd[OF find_unique[OF assms]]) simp
  then show ?thesis by (simp add: retry_delay_def)
qed

lemma capped_linear_le:
  fixes b a :: int
  assumes "0 \<le> b"
  shows "b * min (a + 1) 10 \<le> 10 * b"
proof -
  have "b * min (a + 1) 10 \<le> b * 10" using assms by (intro mult_left_mono) auto
  then show ?thesis by (simp add: mult.commute)
qed

lemma capped_linear_mono:
  fixes b a a2 :: int
  assumes "0 \<le> b" and "a \<le> a2"
  shows "b * min (a + 1) 10 \<le> b * min (a2 + 1) 10"
  using assms by (intro mult_left_mono) auto

text \<open>
  Claim C2.  For an entry with attempt count \<open>a\<close>, \<open>markFailed now id backoffMs\<close> leaves
  the table with that entry's attempts \<open>a + 1\<close>, status queued and
  \<open>available_at = now + backoffMs * min (a + 1) 10\<close>, and every other entry as it was.
  The scheduled delay is \<open>backoffMs * min (a + 1) 10\<close>; for a non-negative
  \<open>backoffMs\<close> it is at most \<open>10 * backoffMs\<close>, and an entry with at least as many
  attempts gets at least as long a delay.
\<close>

theorem markFailed_capped_backoff:
  assumes "distinct (map q_id q)" and "r \<in> set q" and "q_attempts r = a"
      and "distinct (map q_id q2)" and "r2 \<in> set q2" and "q_attempts r2 = a2"
  shows "markFailed now (q_id r) backoffMs q =
           map (\<lambda>x. if q_id x = q_id r
                    then x\<lparr>q_status := ''queued'', q_attempts := a + 1,
                           q_available_at := now + backoffMs * min (a + 1) 10\<rparr>
                    else x) q
       \<and> retry_delay now (q_id r) backoffMs q = Some (backoffMs * min (a + 1) 10)
       \<and> (0 \<le> backoffMs \<longrightarrow> backoffMs * min (a + 1) 10 \<le> 10 * backoffMs)
       \<and> (0 \<le> backoffMs \<and> a \<le> a2 \<longrightarrow>
            (\<exists>d d2. retry_delay now (q_id r) backoffMs q = Some d
                  \<and> retry_delay now2 (q_id r2) backoffMs q2 = Some d2 \<and> d \<le> d2))"
  using markFailed_row[OF assms(1,2), of now backoffMs]
        retry_delay_row[OF assms(1,2), of now backoffMs]
        retry_delay_row[OF assms(4,5), of now2 backoffMs]
        capped_linear_le[of backoffMs a] capped_linear_mono[of backoffMs a a2] assms(3,6)
  by simp

theorem markFailed_capped_backoff_witness:
  "distinct (map q_id wq') \<and> wq' ! 1 \<in> set wq' \<and> q_attempts (wq' ! 1) = 2
   \<and> wq' ! 4 \<in> set wq' \<and> q_attempts (wq' ! 4) = 1
   \<and> find (\<lambda>r. q_id r = 1) (markFailed 1000 1 3000 wq')
        = Some \<lparr>q_id = 1, q_campaign_id = 1, q_target_id = 11, q_phone_id = ''p'',
                 q_available_at = 10000, q_attempts = 3, q_status = ''queued''\<rparr>
   \<and> retry_delay 1000 (q_id (wq' ! 4)) 3000 wq' = Some 6000
   \<and> retry_delay 1000 (q_id (wq' ! 1)) 3000 wq' = Some 9000
   \<and> (9000::int) \<le> 10 * 3000"
proof -
  have d: "distinct (map q_id wq')" by (simp add: wq'_def)
  have r1: "wq' ! 1 \<in> set wq'" and r4: "wq' ! 4 \<in> set wq'" by (simp_all add: wq'_def)
  have a1: "q_attempts (wq' ! 1) = 2" and a4: "q_attempts (wq' ! 4) = 1" by (simp_all add: wq'_def)
  have i1: "q_id (wq' ! 1) = 1" by (simp add: wq'_def)
  note t = markFailed_capped_backoff[OF d r4 a4 d r1 a1, of 1000 3000 1000]
  note u = markFailed_capped_backoff[OF d r1 a1 d r4 a4, of 1000 3000 1000]
  have e: "find (\<lambda>r. q_id r = 1) (markFailed 1000 1 3000 wq')
        = Some \<lparr>q_id = 1, q_campaign_id = 1, q_target_id = 11, q_phone_id = ''p'',
                 q_available_at = 10000, q_attempts = 3, q_status = ''queued''\<rparr>"
    using u by (simp add: i1) (simp add: wq'_def)
  have "retry_delay 1000 (q_id (wq' ! 4)) 3000 wq' = Some 6000" using t by simp
  moreover have "retry_delay 1000 (q_id (wq' ! 1)) 3000 wq' = Some 9000" using u by simp
  ultimately show ?thesis using d r1 r4 a1 a4 e by simp
qed

section \<open>Properties of the dispatch worker\<close>

lemma markDone_done:
  "list_all (\<lambda>r. q_id r = i \<longrightarrow> q_status r = ''done'') (markDone i q)"
  by (induction q) (simp_all add: markDone_def set_queue_status_def)


lemma markDone_ids: "map q_id (markDone i q) = map q_id q"
  by (induction q) (simp_all add: markDone_def set_queue_status_def)


lemma find_update_target:
  "find (\<lambda>t. t_id t = i) ts = Some tgt \<Longrightarrow> t_id (f tgt) = i \<Longrightarrow>
   find (\<lambda>t. t_id t = i) (update_target i f ts) = Some (f tgt)"
  by (induction ts) (auto simp: update_target_def split: if_splits)

lemma find_Some_id: "find (\<lambda>t. t_id t = i) ts = Some tgt \<Longrightarrow> t_id tgt = i"
  by (induction ts) (auto split: if_splits)

lemma mark_sending_frame:
  "wa_calls (mark_sending env tgt w) = wa_calls w"
  "campaigns (mark_sending env tgt w) = campaigns w"
  "queue (mark_sending env tgt w) = queue w"
  "messages (mark_sending env tgt w) = messages w"
  "clock_reads (mark_sending env tgt w) = Suc (clock_reads w)"
  "campaign_targets (mark_sending env tgt w) =
     update_target (t_id tgt)
       (\<lambda>t. t\<lparr>t_status := ''sending'', t_updated_at := d_epoch (clock env (clock_reads w))\<rparr>)
       (campaign_targets w)"
  by (simp_all add: mark_sending_def new_Date_def)

lemma result_world_simps:
  "result_world (Inl (msg, w)) = w" "result_world (Inr w) = w"
  by (simp_all add: result_world_def)

lemma record_sent_frame:
  "wa_calls (result_world (record_sent env camp tgt jb cs resp w)) = wa_calls w"
  "campaigns (result_world (record_sent env camp tgt jb cs resp w)) = campaigns w"
  by (simp_all add: record_sent_def new_Date_def result_world_def Let_def split: sum.split)

lemma catch_send_frame:
  "wa_calls (catch_send env tgt jb msg w) = wa_calls w"
  "campaigns (catch_send env tgt jb msg w) = campaigns w"
  by (simp_all add: catch_send_def new_Date_def Let_def)

lemma try_send_None:
  "Object_values (t_vars_json tgt) = None \<Longrightarrow>
   try_send env camp tgt jb w = Inl (''Cannot convert undefined or null to object'', mark_sending env tgt w)"
  by (simp add: try_send_def)

lemma try_send_error:
  "Object_values (t_vars_json tgt) = Some vals \<Longrightarrow>
   wa_api env (length (wa_calls w)) (request_for env camp tgt (body_components vals)) = Http_error msg \<Longrightarrow>
   try_send env camp tgt jb w =
     Inl (msg, (mark_sending env tgt w)\<lparr>wa_calls := wa_calls w @ [request_for env camp tgt (body_components vals)]\<rparr>)"
  by (simp add: try_send_def Let_def mark_sending_frame)

lemma try_send_ok:
  "Object_values (t_vars_json tgt) = Some vals \<Longrightarrow>
   wa_api env (length (wa_calls w)) (request_for env camp tgt (body_components vals)) = Http_ok resp \<Longrightarrow>
   try_send env camp tgt jb w =
     record_sent env camp tgt jb (body_components vals) resp
       ((mark_sending env tgt w)\<lparr>wa_calls := wa_calls w @ [request_for env camp tgt (body_components vals)]\<rparr>)"
  by (simp add: try_send_def Let_def mark_sending_frame)

lemma try_send_calls:
  "wa_calls (result_world (try_send env camp tgt jb w)) =
     (case Object_values (t_vars_json tgt) of
        None \<Rightarrow> wa_calls w
      | Some vals \<Rightarrow> wa_calls w @ [request_for env camp tgt (body_components vals)])"
proof (cases "Object_values (t_vars_json tgt)")
  case None
  then show ?thesis by (simp add: try_send_None result_world_simps mark_sending_frame)
next
  case (Some vals)
  show ?thesis
  proof (cases "wa_api env (length (wa_calls w)) (request_for env camp tgt (body_components vals))")
    case (Http_ok resp)
    show ?thesis
      by (simp add: try_send_ok[OF Some Http_ok] Some record_sent_frame)
  next
    case (Http_error msg)
    show ?thesis
      by (simp add: try_send_error[OF Some Http_error] Some result_world_simps)
  qed
qed

lemma try_send_campaigns:
  "campaigns (result_world (try_send env camp tgt jb w)) = campaigns w"
proof (cases "Object_values (t_vars_json tgt)")
  case None
  then show ?thesis by (simp add: try_send_None result_world_simps mark_sending_frame)
next
  case (Some vals)
  show ?thesis
  proof (cases "wa_api env (length (wa_calls w)) (request_for env camp tgt (body_components vals))")
    case (Http_ok resp)
    show ?thesis
      by (simp add: try_send_ok[OF Some Http_ok] record_sent_frame mark_sending_frame)
  next
    case (Http_error msg)
    show ?thesis
      by (simp add: try_send_error[OF Some Http_error] result_world_simps mark_sending_frame)
  qed
qed

lemma process_job_no_campaign:
  "find (\<lambda>c. c_id c = j_campaign_id jb) (campaigns w) = None \<Longrightarrow>
   process_job env jb w = w\<lparr>queue := markDone (j_id jb) (queue w)\<rparr>"
  by (simp add: process_job_def)

lemma process_job_gate:
  assumes "find (\<lambda>c. c_id c = j_campaign_id jb) (campaigns w) = Some camp"
      and "c_status camp \<in> {''paused'', ''canceled'', ''done'', ''error''}"
  shows "process_job env jb w = w\<lparr>queue := markDone (j_id jb) (queue w)\<rparr>"
  using assms by (simp add: process_job_def)

lemma process_job_no_target:
  assumes "find (\<lambda>c. c_id c = j_campaign_id jb) (campaigns w) = Some camp"
      and "c_status camp \<notin> {''paused'', ''canceled'', ''done'', ''error''}"
      and "find (\<lambda>t. t_id t = j_target_id jb) (campaign_targets w) = None"
  shows "process_job env jb w = w\<lparr>queue := markDone (j_id jb) (queue w)\<rparr>"
  using assms by (simp add: process_job_def)

lemma process_job_bad_phone:
  assumes "find (\<lambda>c. c_id c = j_campaign_id jb) (campaigns w) = Some camp"
      and "c_status camp \<notin> {''paused'', ''canceled'', ''done'', ''error''}"
      and "find (\<lambda>t. t_id t = j_target_id jb) (campaign_targets w) = Some tgt"
      and "\<not> phone_pattern (t_phone tgt)"
  shows "process_job env jb w =
           w\<lparr>clock_reads := Suc (clock_reads w),
              campaign_targets :=
                update_target (t_id tgt)
                  (\<lambda>t. t\<lparr>t_status := ''failed'', t_last_error := Some ''telefono_invalido'',
                          t_updated_at := d_epoch (clock env (clock_reads w))\<rparr>)
                  (campaign_targets w),
              queue := markDone (j_id jb) (queue w)\<rparr>"
  using assms by (simp add: process_job_def new_Date_def)

lemma process_job_send:
  assumes "find (\<lambda>c. c_id c = j_campaign_id jb) (campaigns w) = Some camp"
      and "c_status camp \<notin> {''paused'', ''canceled'', ''done'', ''error''}"
      and "find (\<lambda>t. t_id t = j_target_id jb) (campaign_targets w) = Some tgt"
      and "phone_pattern (t_phone tgt)"
  shows "process_job env jb w =
           (case try_send env camp tgt jb w of
              Inr w' \<Rightarrow> w'
            | Inl (msg, w') \<Rightarrow> catch_send env tgt jb msg w')"
  using assms by (simp add: process_job_def)

text \<open>The five ways through the loop body.\<close>

lemma process_job_cases:
  obtains
    (no_campaign) "find (\<lambda>c. c_id c = j_campaign_id jb) (campaigns w) = None"
  | (gated) camp where "find (\<lambda>c. c_id c = j_campaign_id jb) (campaigns w) = Some camp"
      and "c_status camp \<in> {''paused'', ''canceled'', ''done'', ''error''}"
  | (no_target) camp where "find (\<lambda>c. c_id c = j_campaign_id jb) (campaigns w) = Some camp"
      and "c_status camp \<notin> {''paused'', ''canceled'', ''done'', ''error''}"
      and "find (\<lambda>t. t_id t = j_target_id jb) (campaign_targets w) = None"
  | (bad_phone) camp tgt where "find (\<lambda>c. c_id c = j_campaign_id jb) (campaigns w) = Some camp"
      and "c_status camp \<notin> {''paused'', ''canceled'', ''done'', ''error''}"
      and "find (\<lambda>t. t_id t = j_target_id jb) (campaign_targets w) = Some tgt"
      and "\<not> phone_pattern (t_phone tgt)"
  | (send) camp tgt where "find (\<lambda>c. c_id c = j_campaign_id jb) (campaigns w) = Some camp"
      and "c_status camp \<notin> {''paused'', ''canceled'', ''done'', ''error''}"
      and "find (\<lambda>t. t_id t = j_target_id jb) (campaign_targets w) = Some tgt"
      and "phone_pattern (t_phone tgt)"
  by (cases "find (\<lambda>c. c_id c = j_campaign_id jb) (campaigns w)";
      cases "find (\<lambda>t. t_id t = j_target_id jb) (campaign_targets w)") blast+

lemma process_job_send_world:
  assumes "find (\<lambda>c. c_id c = j_campaign_id jb) (campaigns w) = Some camp"
      and "c_status camp \<notin> {''paused'', ''canceled'', ''done'', ''error''}"
      and "find (\<lambda>t. t_id t = j_target_id jb) (campaign_targets w) = Some tgt"
      and "phone_pattern (t_phone tgt)"
  shows "wa_calls (process_job env jb w) = wa_calls (result_world (try_send env camp tgt jb w))"
    and "campaigns (process_job env jb w) = campaigns (result_world (try_send env camp tgt jb w))"
  unfolding process_job_send[OF assms]
  by (cases "try_send env camp tgt jb w"; simp add: result_world_def catch_send_frame split: prod.split)+

lemma process_job_campaigns: "campaigns (process_job env jb w) = campaigns w"
proof (cases rule: process_job_cases[of jb w])
  case no_campaign
  then show ?thesis by (simp add: process_job_no_campaign)
next
  case (gated camp)
  then show ?thesis by (simp add: process_job_gate)
next
  case (no_target camp)
  then show ?thesis by (simp add: process_job_no_target)
next
  case (bad_phone camp tgt)
  then show ?thesis by (simp add: process_job_bad_phone)
next
  case (send camp tgt)
  then show ?thesis by (simp add: process_job_send_world try_send_campaigns)
qed




lemma fold_process_job_campaigns: "campaigns (fold (process_job env) js w) = campaigns w"
  by (induction js arbitrary: w) (simp_all add: process_job_campaigns)


lemma sweep_frame:
  "wa_calls (sweep w) = wa_calls w" "campaign_targets (sweep w) = campaign_targets w"
  "queue (sweep w) = queue w"
  by (simp_all add: sweep_def Let_def)






section \<open>Properties of the worker's send\<close>

lemma wa_id_of_None_iff:
  "wa_id_of resp = None \<longleftrightarrow>
     \<not> (\<exists>ms m v. js_get ''messages'' resp = Some ms \<and> js_index0 ms = Some m
                 \<and> js_get ''id'' m = Some v \<and> js_truthy v)"
proof -
  have a: "js_get k JNull = None" for k by simp
  have b: "js_index0 JNull = None" by simp
  show ?thesis
    unfolding wa_id_of_def
    by (cases "js_get ''messages'' resp") (auto simp: a b split: option.splits)
qed

lemma record_sent_Inr:
  "bind_wa_id (wa_id_of resp) = Inr v \<Longrightarrow>
   record_sent env camp tgt jb cs resp w =
     Inr (w\<lparr>clock_reads := Suc (clock_reads w),
           messages := messages w @
             [\<lparr>m_id = next_rowid (map m_id (messages w)), m_campaign_id = c_id camp,
               m_target_id = t_id tgt, m_payload_json = cs, m_result_json = resp,
               m_created_at = d_epoch (clock env (clock_reads w))\<rparr>],
           campaign_targets :=
             update_target (t_id tgt)
               (\<lambda>t. t\<lparr>t_status := ''sent'', t_wa_message_id := v,
                       t_updated_at := d_epoch (clock env (clock_reads w))\<rparr>)
               (campaign_targets w),
           queue := markDone (j_id jb) (queue w)\<rparr>)"
  by (simp add: record_sent_def new_Date_def Let_def)

lemma record_sent_Inl:
  "bind_wa_id (wa_id_of resp) = Inl msg \<Longrightarrow>
   record_sent env camp tgt jb cs resp w =
     Inl (msg, w\<lparr>clock_reads := Suc (clock_reads w),
           messages := messages w @
             [\<lparr>m_id = next_rowid (map m_id (messages w)), m_campaign_id = c_id camp,
               m_target_id = t_id tgt, m_payload_json = cs, m_result_json = resp,
               m_created_at = d_epoch (clock env (clock_reads w))\<rparr>]\<rparr>)"
  by (simp add: record_sent_def new_Date_def Let_def)

lemma catch_send_targets:
  "campaign_targets (catch_send env tgt jb msg w) =
     update_target (t_id tgt)
       (\<lambda>t. t\<lparr>t_status := ''failed'', t_last_error := Some (take 500 msg),
               t_updated_at := d_epoch (clock env (clock_reads w))\<rparr>)
       (campaign_targets w)"
  by (simp add: catch_send_def new_Date_def Let_def)

lemma update_target_keeps_none:
  "list_all (\<lambda>t. t_id t = i \<longrightarrow> t_wa_message_id t = None)
     (update_target i (\<lambda>t. t\<lparr>t_status := s, t_wa_message_id := None, t_updated_at := u\<rparr>) ts)"
  by (induction ts) (simp_all add: update_target_def)

text \<open>
  Claim C10.  When a job reaches the send (its campaign is active, its target exists with
  a phone matching the pattern and variables that are not null), the POST succeeds, and
  the response yields no message id (\<open>resp?.messages?.[0]?.id || null\<close> is null), the
  loop body still inserts the message row with the response, sets the target to sent
  with \<open>wa_message_id\<close> NULL, and marks the queue entry done.  So the target ends sent
  with no message id stored: no row with its id can be found by a message id.
\<close>

theorem worker_marks_sent_without_message_id:
  assumes "find (\<lambda>c. c_id c = j_campaign_id jb) (campaigns w) = Some camp"
      and "c_status camp \<notin> {''paused'', ''canceled'', ''done'', ''error''}"
      and "find (\<lambda>t. t_id t = j_target_id jb) (campaign_targets w) = Some tgt"
      and "phone_pattern (t_phone tgt)"
      and "Object_values (t_vars_json tgt) = Some vals"
      and "wa_api env (length (wa_calls w)) (request_for env camp tgt (body_components vals)) = Http_ok resp"
      and "wa_id_of resp = None"
  shows "process_job env jb w =
           w\<lparr>clock_reads := Suc (Suc (clock_reads w)),
              wa_calls := wa_calls w @ [request_for env camp tgt (body_components vals)],
              messages := messages w @
                [\<lparr>m_id = next_rowid (map m_id (messages w)), m_campaign_id = c_id camp,
                  m_target_id = t_id tgt, m_payload_json = body_components vals,
                  m_result_json = resp, m_created_at = d_epoch (clock env (Suc (clock_reads w)))\<rparr>],
              campaign_targets :=
                update_target (t_id tgt)
                  (\<lambda>t. t\<lparr>t_status := ''sent'', t_wa_message_id := None,
                          t_updated_at := d_epoch (clock env (Suc (clock_reads w)))\<rparr>)
                  (update_target (t_id tgt)
                     (\<lambda>t. t\<lparr>t_status := ''sending'', t_updated_at := d_epoch (clock env (clock_reads w))\<rparr>)
                     (campaign_targets w)),
              queue := markDone (j_id jb) (queue w)\<rparr>
       \<and> find (\<lambda>t. t_id t = j_target_id jb) (campaign_targets (process_job env jb w)) =
           Some (tgt\<lparr>t_status := ''sent'', t_wa_message_id := None,
                     t_updated_at := d_epoch (clock env (Suc (clock_reads w)))\<rparr>)
       \<and> list_all (\<lambda>t. t_id t = j_target_id jb \<longrightarrow> t_wa_message_id t = None)
             (campaign_targets (process_job env jb w))
       \<and> list_all (\<lambda>r. q_id r = j_id jb \<longrightarrow> q_status r = ''done'') (queue (process_job env jb w))"
proof -
  let ?rq = "request_for env camp tgt (body_components vals)"
  let ?w3 = "(mark_sending env tgt w)\<lparr>wa_calls := wa_calls w @ [?rq]\<rparr>"
  have i: "t_id tgt = j_target_id jb" using assms(3) by (rule find_Some_id)
  have b: "bind_wa_id (wa_id_of resp) = Inr None"
    using assms(7) by (simp add: bind_wa_id_def bind_args_def param_def)
  have "try_send env camp tgt jb w = record_sent env camp tgt jb (body_components vals) resp ?w3"
    using assms(5,6) by (rule try_send_ok)
  also have "\<dots> = Inr (?w3\<lparr>clock_reads := Suc (clock_reads ?w3),
           messages := messages ?w3 @
             [\<lparr>m_id = next_rowid (map m_id (messages ?w3)), m_campaign_id = c_id camp,
               m_target_id = t_id tgt, m_payload_json = body_components vals, m_result_json = resp,
               m_created_at = d_epoch (clock env (clock_reads ?w3))\<rparr>],
           campaign_targets :=
             update_target (t_id tgt)
               (\<lambda>t. t\<lparr>t_status := ''sent'', t_wa_message_id := None,
                       t_updated_at := d_epoch (clock env (clock_reads ?w3))\<rparr>)
               (campaign_targets ?w3),
           queue := markDone (j_id jb) (queue ?w3)\<rparr>)"
    using b by (rule record_sent_Inr)
  finally have t: "try_send env camp tgt jb w = Inr (?w3\<lparr>clock_reads := Suc (clock_reads ?w3),
           messages := messages ?w3 @
             [\<lparr>m_id = next_rowid (map m_id (messages ?w3)), m_campaign_id = c_id camp,
               m_target_id = t_id tgt, m_payload_json = body_components vals, m_result_json = resp,
               m_created_at = d_epoch (clock env (clock_reads ?w3))\<rparr>],
           campaign_targets :=
             update_target (t_id tgt)
               (\<lambda>t. t\<lparr>t_status := ''sent'', t_wa_message_id := None,
                       t_updated_at := d_epoch (clock env (clock_reads ?w3))\<rparr>)
               (campaign_targets ?w3),
           queue := markDone (j_id jb) (queue ?w3)\<rparr>)" .
  have e: "process_job env jb w =
           w\<lparr>clock_reads := Suc (Suc (clock_reads w)),
              wa_calls := wa_calls w @ [?rq],
              messages := messages w @
                [\<lparr>m_id = next_rowid (map m_id (messages w)), m_campaign_id = c_id camp,
                  m_target_id = t_id tgt, m_payload_json = body_components vals,
                  m_result_json = resp, m_created_at = d_epoch (clock env (Suc (clock_reads w)))\<rparr>],
              campaign_targets :=
                update_target (t_id tgt)
                  (\<lambda>t. t\<lparr>t_status := ''sent'', t_wa_message_id := None,
                          t_updated_at := d_epoch (clock env (Suc (clock_reads w)))\<rparr>)
                  (update_target (t_id tgt)
                     (\<lambda>t. t\<lparr>t_status := ''sending'', t_updated_at := d_epoch (clock env (clock_reads w))\<rparr>)
                     (campaign_targets w)),
              queue := markDone (j_id jb) (queue w)\<rparr>"
    unfolding process_job_send[OF assms(1-4)] t
    by (simp add: mark_sending_frame) (simp add: mark_sending_def new_Date_def)
  have a3: "find (\<lambda>t. t_id t = t_id tgt) (campaign_targets w) = Some tgt"
    using assms(3) by (simp add: i)
  have f1: "find (\<lambda>t. t_id t = t_id tgt)
              (update_target (t_id tgt)
                 (\<lambda>t. t\<lparr>t_status := ''sending'', t_updated_at := d_epoch (clock env (clock_reads w))\<rparr>)
                 (campaign_targets w))
            = Some (tgt\<lparr>t_status := ''sending'', t_updated_at := d_epoch (clock env (clock_reads w))\<rparr>)"
    by (rule find_update_target[OF a3]) simp
  have f2: "find (\<lambda>t. t_id t = t_id tgt)
              (update_target (t_id tgt)
                  (\<lambda>t. t\<lparr>t_status := ''sent'', t_wa_message_id := None,
                          t_updated_at := d_epoch (clock env (Suc (clock_reads w)))\<rparr>)
                  (update_target (t_id tgt)
                     (\<lambda>t. t\<lparr>t_status := ''sending'', t_updated_at := d_epoch (clock env (clock_reads w))\<rparr>)
                     (campaign_targets w)))
            = Some (tgt\<lparr>t_status := ''sending'', t_updated_at := d_epoch (clock env (clock_reads w))\<rparr>
                       \<lparr>t_status := ''sent'', t_wa_message_id := None,
                          t_updated_at := d_epoch (clock env (Suc (clock_reads w)))\<rparr>)"
    by (rule find_update_target[OF f1]) simp
  have l: "list_all (\<lambda>t. t_id t = t_id tgt \<longrightarrow> t_wa_message_id t = None)
             (update_target (t_id tgt)
                  (\<lambda>t. t\<lparr>t_status := ''sent'', t_wa_message_id := None,
                          t_updated_at := d_epoch (clock env (Suc (clock_reads w)))\<rparr>)
                  (update_target (t_id tgt)
                     (\<lambda>t. t\<lparr>t_status := ''sending'', t_updated_at := d_epoch (clock env (clock_reads w))\<rparr>)
                     (campaign_targets w)))"
    by (rule update_target_keeps_none)
  have c2: "find (\<lambda>t. t_id t = j_target_id jb) (campaign_targets (process_job env jb w)) =
           Some (tgt\<lparr>t_status := ''sent'', t_wa_message_id := None,
                     t_updated_at := d_epoch (clock env (Suc (clock_reads w)))\<rparr>)"
    using f2 by (simp add: e i)
  have c3: "list_all (\<lambda>t. t_id t = j_target_id jb \<longrightarrow> t_wa_message_id t = None)
             (campaign_targets (process_job env jb w))"
    using l by (simp add: e i)
  have c4: "list_all (\<lambda>r. q_id r = j_id jb \<longrightarrow> q_status r = ''done'') (queue (process_job env jb w))"
    by (simp add: e markDone_done)
  show ?thesis using e c2 c3 c4 by blast
qed

lemma wa_id_of_examples:
  "wa_id_of (JObj [(''messaging_product'', JStr ''whatsapp'')]) = None"
  "wa_id_of (JObj [(''messages'', JArr [])]) = None"
  "wa_id_of (JObj [(''messages'', JArr [JObj [(''message_status'', JStr ''accepted'')]])]) = None"
  "wa_id_of (JObj [(''messages'', JArr [JObj [(''id'', JStr [])]])]) = None"
  "wa_id_of JNull = None"
  "wa_id_of (JStr []) = None"
  "wa_id_of (JObj [(''messages'', JArr [JObj [(''id'', JStr ''wamid.HBgL'')]])]) = Some (JStr ''wamid.HBgL'')"
  by (simp_all add: wa_id_of_def)

theorem worker_marks_sent_without_message_id_witness:
  "find (\<lambda>c. c_id c = j_campaign_id (job_of (qrow 1 1))) (campaigns world0) = Some camp1
   \<and> c_status camp1 \<notin> {''paused'', ''canceled'', ''done'', ''error''}
   \<and> find (\<lambda>t. t_id t = j_target_id (job_of (qrow 1 1))) (campaign_targets world0) = Some tgt1
   \<and> phone_pattern (t_phone tgt1)
   \<and> Object_values (t_vars_json tgt1) = Some [JStr ''Ana'']
   \<and> wa_api wenv (length (wa_calls world0)) (request_for wenv camp1 tgt1 (body_components [JStr ''Ana'']))
       = Http_ok (JObj [(''messaging_product'', JStr ''whatsapp'')])
   \<and> wa_id_of (JObj [(''messaging_product'', JStr ''whatsapp'')]) = None
   \<and> find (\<lambda>t. t_id t = j_target_id (job_of (qrow 1 1)))
         (campaign_targets (process_job wenv (job_of (qrow 1 1)) world0)) =
       Some (tgt1\<lparr>t_status := ''sent'', t_wa_message_id := None,
                  t_updated_at := d_epoch (clock wenv (Suc (clock_reads world0)))\<rparr>)
   \<and> map t_status (campaign_targets (process_job wenv (job_of (qrow 1 1)) world0))
       = [''sent'', ''queued'', ''queued'', ''queued'']
   \<and> map m_result_json (messages (process_job wenv (job_of (qrow 1 1)) world0))
       = [JObj [(''messaging_product'', JStr ''whatsapp'')]]
   \<and> map q_status (queue (process_job wenv (job_of (qrow 1 1)) world0))
       = [''done'', ''queued'', ''queued'', ''queued'']"
proof -
  have f: "find (\<lambda>c. c_id c = j_campaign_id (job_of (qrow 1 1))) (campaigns world0) = Some camp1"
    by code_simp
  have s: "c_status camp1 \<notin> {''paused'', ''canceled'', ''done'', ''error''}"
    by (simp add: camp1_def)
  have t: "find (\<lambda>t. t_id t = j_target_id (job_of (qrow 1 1))) (campaign_targets world0) = Some tgt1"
    by code_simp
  have p: "phone_pattern (t_phone tgt1)" by code_simp
  have v: "Object_values (t_vars_json tgt1) = Some [JStr ''Ana'']" by code_simp
  have a: "wa_api wenv (length (wa_calls world0)) (request_for wenv camp1 tgt1 (body_components [JStr ''Ana'']))
       = Http_ok (JObj [(''messaging_product'', JStr ''whatsapp'')])"
    by code_simp
  have n: "wa_id_of (JObj [(''messaging_product'', JStr ''whatsapp'')]) = None"
    by (simp add: wa_id_of_def)
  have m1: "map t_status (campaign_targets (process_job wenv (job_of (qrow 1 1)) world0))
       = [''sent'', ''queued'', ''queued'', ''queued'']"
    by code_simp
  have m2: "map m_result_json (messages (process_job wenv (job_of (qrow 1 1)) world0))
       = [JObj [(''messaging_product'', JStr ''whatsapp'')]]"
    by code_simp
  have m3: "map q_status (queue (process_job wenv (job_of (qrow 1 1)) world0))
       = [''done'', ''queued'', ''queued'', ''queued'']"
    by code_simp
  show ?thesis
    using worker_marks_sent_without_message_id[OF f s t p v a n] f s t p v a n m1 m2 m3 by blast
qed










section \<open>Properties of the delivery window\<close>

lemma js_split_no_sep: "sep \<notin> set s \<Longrightarrow> js_split sep s = [s]"
  by (induction s) auto

lemma js_split_at_sep: "sep \<notin> set a \<Longrightarrow> js_split sep (a @ sep # b) = a # js_split sep b"
  by (induction a) auto

lemma digits_no_punctuation:
  "list_all is_digit s \<Longrightarrow> CHR '':'' \<notin> set s \<and> CHR ''-'' \<notin> set s"
  by (induction s) (auto simp: is_digit_def)

lemma toMinutes_digits:
  assumes "list_all is_digit h" and "list_all is_digit m"
  shows "toMinutes (h @ CHR '':'' # m) = Num (int (digits_value h) * 60 + int (digits_value m))"
proof -
  have "js_split CHR '':'' (h @ CHR '':'' # m) = [h, m]"
    using digits_no_punctuation[OF assms(1)] digits_no_punctuation[OF assms(2)]
    by (simp add: js_split_at_sep js_split_no_sep)
  then show ?thesis using assms by (simp add: toMinutes_def js_Number_def)
qed

lemma inWindow_digits:
  assumes "list_all is_digit hs" and "list_all is_digit ms"
      and "list_all is_digit he" and "list_all is_digit me"
  shows "inWindow now (hs @ '':'' @ ms @ ''-'' @ he @ '':'' @ me) =
           (let s = int (digits_value hs) * 60 + int (digits_value ms);
                e = int (digits_value he) * 60 + int (digits_value me);
                t = int (d_hours now) * 60 + int (d_minutes now)
            in if s \<le> e then s \<le> t \<and> t \<le> e else s \<le> t \<or> t \<le> e)"
proof -
  let ?a = "hs @ '':'' @ ms" and ?b = "he @ '':'' @ me"
  have na: "CHR ''-'' \<notin> set ?a" and nb: "CHR ''-'' \<notin> set ?b"
    using assms digits_no_punctuation by auto
  have "js_split CHR ''-'' (?a @ CHR ''-'' # ?b) = ?a # js_split CHR ''-'' ?b"
    by (rule js_split_at_sep[OF na])
  also have "js_split CHR ''-'' ?b = [?b]"
    by (rule js_split_no_sep[OF nb])
  finally have sp: "js_split CHR ''-'' (?a @ CHR ''-'' # ?b) = [?a, ?b]" .
  have w: "hs @ '':'' @ ms @ ''-'' @ he @ '':'' @ me = ?a @ CHR ''-'' # ?b" by simp
  show ?thesis
    unfolding w inWindow_def sp
    by (simp add: toMinutes_digits[OF assms(1,2)] toMinutes_digits[OF assms(3,4)] Let_def)
qed

lemma tick_outside_window:
  "\<not> inWindow (clock env (clock_reads w)) (WINDOW env) \<Longrightarrow>
   tick env w = w\<lparr>clock_reads := Suc (clock_reads w)\<rparr>"
  by (simp add: tick_def new_Date_def)

lemma tick_inside_window:
  "inWindow (clock env (clock_reads w)) (WINDOW env) \<Longrightarrow>
   tick env w =
     (let w1 = w\<lparr>clock_reads := Suc (Suc (clock_reads w))\<rparr>;
          (batch, q') = fetchBatch (d_epoch (clock env (Suc (clock_reads w)))) (BATCH_SIZE env) (queue w)
      in if batch = [] then w1\<lparr>queue := q'\<rparr>
         else sweep (fold (process_job env) batch (w1\<lparr>queue := q'\<rparr>)))"
  by (simp add: tick_def new_Date_def Let_def split: prod.split)

text \<open>
  Claim C6.  For a window \<open>HH:MM-HH:MM\<close> written with decimal digits, with \<open>s\<close> and \<open>e\<close>
  the minutes of the day of its start and end and \<open>t\<close> those of the tick's clock reading:
  the tick is inside the window when \<open>s \<le> t \<le> e\<close> if \<open>s \<le> e\<close>, and when \<open>s \<le> t\<close> or
  \<open>t \<le> e\<close> if the end is earlier than the start (the window wraps past midnight).
  Outside the window the tick does nothing but read the clock; inside it goes on to
  claim a batch.  The witness is the window 22:00-06:00 at 23:30 and at 12:00.
\<close>

theorem tick_respects_delivery_window:
  assumes "list_all is_digit hs" and "list_all is_digit ms"
      and "list_all is_digit he" and "list_all is_digit me"
      and "WINDOW env = hs @ '':'' @ ms @ ''-'' @ he @ '':'' @ me"
      and "s = int (digits_value hs) * 60 + int (digits_value ms)"
      and "e = int (digits_value he) * 60 + int (digits_value me)"
      and "t = int (d_hours (clock env (clock_reads w))) * 60 + int (d_minutes (clock env (clock_reads w)))"
  shows "(inWindow (clock env (clock_reads w)) (WINDOW env)
            \<longleftrightarrow> (if s \<le> e then s \<le> t \<and> t \<le> e else s \<le> t \<or> t \<le> e))
       \<and> (\<not> (if s \<le> e then s \<le> t \<and> t \<le> e else s \<le> t \<or> t \<le> e)
            \<longrightarrow> tick env w = w\<lparr>clock_reads := Suc (clock_reads w)\<rparr>)
       \<and> ((if s \<le> e then s \<le> t \<and> t \<le> e else s \<le> t \<or> t \<le> e)
            \<longrightarrow> tick env w =
                 (let w1 = w\<lparr>clock_reads := Suc (Suc (clock_reads w))\<rparr>;
                      (batch, q') = fetchBatch (d_epoch (clock env (Suc (clock_reads w))))
                                      (BATCH_SIZE env) (queue w)
                  in if batch = [] then w1\<lparr>queue := q'\<rparr>
                     else sweep (fold (process_job env) batch (w1\<lparr>queue := q'\<rparr>))))"
proof -
  have i: "inWindow (clock env (clock_reads w)) (WINDOW env)
            \<longleftrightarrow> (if s \<le> e then s \<le> t \<and> t \<le> e else s \<le> t \<or> t \<le> e)"
    unfolding assms(5) inWindow_digits[OF assms(1-4)] assms(6-8) Let_def ..
  show ?thesis
    using i tick_outside_window[of env w] tick_inside_window[of env w] by blast
qed

theorem tick_respects_delivery_window_witness:
  "list_all is_digit ''22'' \<and> list_all is_digit ''00'' \<and> list_all is_digit ''06''
   \<and> WINDOW wenv = ''22'' @ '':'' @ ''00'' @ ''-'' @ ''06'' @ '':'' @ ''00''
   \<and> WINDOW wenv_noon = ''22'' @ '':'' @ ''00'' @ ''-'' @ ''06'' @ '':'' @ ''00''
   \<and> int (digits_value ''22'') * 60 + int (digits_value ''00'') = 1320
   \<and> int (digits_value ''06'') * 60 + int (digits_value ''00'') = 360
   \<and> int (d_hours (clock wenv (clock_reads world0))) * 60 + int (d_minutes (clock wenv (clock_reads world0))) = 1410
   \<and> int (d_hours (clock wenv_noon (clock_reads world0))) * 60 + int (d_minutes (clock wenv_noon (clock_reads world0))) = 720
   \<and> inWindow (clock wenv (clock_reads world0)) (WINDOW wenv)
   \<and> map q_status (queue (tick wenv world0)) = [''done'', ''done'', ''done'', ''done'']
   \<and> \<not> inWindow (clock wenv_noon (clock_reads world0)) (WINDOW wenv_noon)
   \<and> tick wenv_noon world0 = world0\<lparr>clock_reads := Suc (clock_reads world0)\<rparr>"
proof -
  have d: "list_all is_digit ''22''" "list_all is_digit ''00''" "list_all is_digit ''06''"
    by (simp_all add: is_digit_def)
  have w1: "WINDOW wenv = ''22'' @ '':'' @ ''00'' @ ''-'' @ ''06'' @ '':'' @ ''00''"
    by (simp add: wenv_def)
  have w2: "WINDOW wenv_noon = ''22'' @ '':'' @ ''00'' @ ''-'' @ ''06'' @ '':'' @ ''00''"
    by (simp add: wenv_noon_def wenv_def)
  have s: "int (digits_value ''22'') * 60 + int (digits_value ''00'') = 1320"
    by (simp add: digits_value_def)
  have e: "int (digits_value ''06'') * 60 + int (digits_value ''00'') = 360"
    by (simp add: digits_value_def)
  have t1: "int (d_hours (clock wenv (clock_reads world0))) * 60 + int (d_minutes (clock wenv (clock_reads world0))) = 1410"
    by (simp add: wenv_def)
  have t2: "int (d_hours (clock wenv_noon (clock_reads world0))) * 60 + int (d_minutes (clock wenv_noon (clock_reads world0))) = 720"
    by (simp add: wenv_noon_def)
  have q: "map q_status (queue (tick wenv world0)) = [''done'', ''done'', ''done'', ''done'']"
    by code_simp
  note a = tick_respects_delivery_window[OF d(1) d(2) d(3) d(2) w1 s[symmetric] e[symmetric] t1[symmetric]]
  note b = tick_respects_delivery_window[OF d(1) d(2) d(3) d(2) w2 s[symmetric] e[symmetric] t2[symmetric]]
  have a1: "inWindow (clock wenv (clock_reads world0)) (WINDOW wenv)" using a by simp
  have b1: "\<not> inWindow (clock wenv_noon (clock_reads world0)) (WINDOW wenv_noon)" using b by simp
  have b2: "tick wenv_noon world0 = world0\<lparr>clock_reads := Suc (clock_reads world0)\<rparr>" using b by simp
  show ?thesis using d w1 w2 s e t1 t2 q a1 b1 b2 by blast
qed

section \<open>Properties of campaign creation\<close>

lemma normalizeTargets_loop_eq:
  "normalizeTargets_loop cc ts acc k =
     (acc @ map (\<lambda>t. (normalizePhone (ti_phone t) cc, or_empty_object (ti_vars t)))
              (filter (valid_input cc) ts),
      k + length (filter (\<lambda>t. \<not> valid_input cc t) ts))"
  by (induction ts arbitrary: acc k) (simp_all add: valid_input_def Let_def)

lemma normalizeTargets_eq:
  "normalizeTargets cc ts =
     (map (\<lambda>t. (normalizePhone (ti_phone t) cc, or_empty_object (ti_vars t))) (filter (valid_input cc) ts),
      length ts - length (filter (valid_input cc) ts))"
proof -
  have "length (filter (\<lambda>t. \<not> valid_input cc t) ts) = length ts - length (filter (valid_input cc) ts)"
    using sum_length_filter_compl[of "valid_input cc" ts] by simp
  then show ?thesis by (simp add: normalizeTargets_def normalizeTargets_loop_eq)
qed

lemma insert_target_None:
  "phone \<in> phones_of cid ts \<Longrightarrow> insert_target cid phone vars now ts = None"
  by (auto simp: insert_target_def phones_of_def list_ex_iff)

lemma insert_target_Some:
  "phone \<notin> phones_of cid ts \<Longrightarrow>
   insert_target cid phone vars now ts =
     Some (ts @ [\<lparr>t_id = next_rowid (map t_id ts), t_campaign_id = cid, t_phone = phone,
                   t_vars_json = vars, t_status = ''queued'', t_last_error = None,
                   t_wa_message_id = None, t_created_at = now, t_updated_at = now\<rparr>])"
  by (auto simp: insert_target_def phones_of_def list_ex_iff)

lemma phones_of_snoc:
  "phones_of cid (ts @ [t]) = (if t_campaign_id t = cid then insert (t_phone t) (phones_of cid ts) else phones_of cid ts)"
  by (auto simp: phones_of_def)

lemma finite_phones_of: "finite (phones_of cid ts)"
  by (simp add: phones_of_def)

lemma insert_targets_count:
  "snd (insert_targets cid now nts ts k) = k + card (fst ` set nts - phones_of cid ts)"
proof (induction nts arbitrary: ts k)
  case Nil
  then show ?case by simp
next
  case (Cons a nts)
  obtain phone vars where a: "a = (phone, vars)" by (cases a)
  show ?case
  proof (cases "phone \<in> phones_of cid ts")
    case True
    have "fst ` set (a # nts) - phones_of cid ts = fst ` set nts - phones_of cid ts"
      using True a by auto
    then show ?thesis using True a Cons.IH[of ts k] by (simp add: insert_target_None)
  next
    case False
    let ?row = "\<lparr>t_id = next_rowid (map t_id ts), t_campaign_id = cid, t_phone = phone,
                   t_vars_json = or_empty_object (Some vars), t_status = ''queued'', t_last_error = None,
                   t_wa_message_id = None, t_created_at = now, t_updated_at = now\<rparr>"
    have p: "phones_of cid (ts @ [?row]) = insert phone (phones_of cid ts)"
      by (simp add: phones_of_snoc)
    have "fst ` set (a # nts) - phones_of cid ts = insert phone (fst ` set nts - insert phone (phones_of cid ts))"
      using False a by auto
    moreover have "phone \<notin> fst ` set nts - insert phone (phones_of cid ts)" by simp
    ultimately have "card (fst ` set (a # nts) - phones_of cid ts)
                   = Suc (card (fst ` set nts - insert phone (phones_of cid ts)))"
      by (simp add: card_insert_if)
    then show ?thesis
      using False a Cons.IH[of "ts @ [?row]" "k + 1"] by (simp add: insert_target_Some p)
  qed
qed

lemma insert_targets_rows:
  "\<exists>new. fst (insert_targets cid now nts ts k) = ts @ new
        \<and> length new = card (fst ` set nts - phones_of cid ts)
        \<and> t_phone ` set new = fst ` set nts - phones_of cid ts
        \<and> list_all (\<lambda>t. t_campaign_id t = cid \<and> t_status t = ''queued'') new"
proof (induction nts arbitrary: ts k)
  case Nil
  then show ?case by simp
next
  case (Cons a nts)
  obtain phone vars where a: "a = (phone, vars)" by (cases a)
  show ?case
  proof (cases "phone \<in> phones_of cid ts")
    case True
    have "fst ` set (a # nts) - phones_of cid ts = fst ` set nts - phones_of cid ts"
      using True a by auto
    then show ?thesis using True a Cons.IH[of ts k] by (simp add: insert_target_None)
  next
    case False
    let ?row = "\<lparr>t_id = next_rowid (map t_id ts), t_campaign_id = cid, t_phone = phone,
                   t_vars_json = or_empty_object (Some vars), t_status = ''queued'', t_last_error = None,
                   t_wa_message_id = None, t_created_at = now, t_updated_at = now\<rparr>"
    have p: "phones_of cid (ts @ [?row]) = insert phone (phones_of cid ts)"
      by (simp add: phones_of_snoc)
    have s: "fst ` set (a # nts) - phones_of cid ts = insert phone (fst ` set nts - insert phone (phones_of cid ts))"
      using False a by auto
    have n: "phone \<notin> fst ` set nts - insert phone (phones_of cid ts)" by simp
    have c: "card (fst ` set (a # nts) - phones_of cid ts)
                   = Suc (card (fst ` set nts - insert phone (phones_of cid ts)))"
      using s n by (simp add: card_insert_if)
    obtain new where new: "fst (insert_targets cid now nts (ts @ [?row]) (k + 1)) = (ts @ [?row]) @ new"
        "length new = card (fst ` set nts - insert phone (phones_of cid ts))"
        "t_phone ` set new = fst ` set nts - insert phone (phones_of cid ts)"
        "list_all (\<lambda>t. t_campaign_id t = cid \<and> t_status t = ''queued'') new"
      using Cons.IH[of "ts @ [?row]" "k + 1"] unfolding p by blast
    have e: "fst (insert_targets cid now (a # nts) ts k) = ts @ (?row # new)"
      using False a new(1) by (simp add: insert_target_Some)
    have "length (?row # new) = card (fst ` set (a # nts) - phones_of cid ts)"
      using new(2) c by simp
    moreover have "t_phone ` set (?row # new) = fst ` set (a # nts) - phones_of cid ts"
      using new(3) s by simp
    moreover have "list_all (\<lambda>t. t_campaign_id t = cid \<and> t_status t = ''queued'') (?row # new)"
      using new(4) by simp
    ultimately show ?thesis using e by blast
  qed
qed

lemma ensureSender_frame:
  assumes "ensureSender env p d w = Inr (sid, w1)"
  shows "campaigns w1 = campaigns w" and "campaign_targets w1 = campaign_targets w"
    and "queue w1 = queue w" and "messages w1 = messages w" and "events w1 = events w"
  using assms
  by (auto simp: ensureSender_def Let_def new_Date_def split: option.splits if_splits)

lemma normalizeTargets_eq2:
  "normalizeTargets cc ts = (normalized_inputs cc ts, length ts - length (filter (valid_input cc) ts))"
  by (simp add: normalizeTargets_eq normalized_inputs_def)

lemma normalized_inputs_Nil: "normalized_inputs cc ts = [] \<longleftrightarrow> filter (valid_input cc) ts = []"
  by (simp add: normalized_inputs_def)

lemma createCampaignRecord_no_sender:
  "ensureSender env (ca_sender_phone_id args) (ca_sender_display args) w = Inl err \<Longrightarrow>
   createCampaignRecord env args w = Inl (err, w)"
  by (simp add: createCampaignRecord_def)

lemma createCampaignRecord_no_targets:
  "ensureSender env (ca_sender_phone_id args) (ca_sender_display args) w = Inr (sid, w1) \<Longrightarrow>
   filter (valid_input (DEFAULT_COUNTRY_CODE env)) (ca_targets args) = [] \<Longrightarrow>
   createCampaignRecord env args w = Inl (NoValidTargets, w1)"
  by (simp add: createCampaignRecord_def normalizeTargets_eq2 normalized_inputs_Nil)

lemma createCampaignRecord_ok:
  assumes "ensureSender env (ca_sender_phone_id args) (ca_sender_display args) w = Inr (sid, w1)"
      and "filter (valid_input (DEFAULT_COUNTRY_CODE env)) (ca_targets args) \<noteq> []"
      and "nts = normalized_inputs (DEFAULT_COUNTRY_CODE env) (ca_targets args)"
      and "cid = next_rowid (map c_id (campaigns w1))"
      and "ins = insert_targets cid (d_epoch (api_clock env (Suc (clock_reads w1)))) nts (campaign_targets w1) 0"
  shows "\<exists>res w'. createCampaignRecord env args w = Inr (res, w')
         \<and> cr_campaign_id res = cid
         \<and> cr_inserted res = snd ins
         \<and> cr_sender_phone_id res = sid
         \<and> cr_skipped_invalid res
              = length (ca_targets args) - length (filter (valid_input (DEFAULT_COUNTRY_CODE env)) (ca_targets args))
         \<and> cr_duplicates res = (if int (length nts) - int (snd ins) > 0 then int (length nts) - int (snd ins) else 0)
         \<and> campaign_targets w' = fst ins
         \<and> campaigns w' =
              map (\<lambda>c. if c_id c = cid then c\<lparr>c_total_targets := int (snd ins)\<rparr> else c)
                (campaigns w1 @
                  [\<lparr>c_id = cid, c_name = ca_name args, c_template_name = ca_template_name args,
                    c_language = ca_language args, c_sender_phone_id = sid, c_status = ''draft'',
                    c_created_at = d_epoch (api_clock env (clock_reads w1)),
                    c_total_targets = int (length nts),
                    c_meta_json = (case ca_meta args of None \<Rightarrow> None
                                   | Some m \<Rightarrow> if js_truthy m then Some m else None)\<rparr>])
         \<and> queue w' = queue w1 \<and> messages w' = messages w1 \<and> events w' = events w1
         \<and> senders w' = senders w1 \<and> wa_calls w' = wa_calls w1"
proof -
  have n: "nts \<noteq> []" using assms(2,3) by (simp add: normalized_inputs_Nil)
  obtain ts k where ik: "ins = (ts, k)" by (cases ins)
  show ?thesis
    using assms(1) n ik
    unfolding createCampaignRecord_def normalizeTargets_eq2 assms(3)[symmetric]
    by (simp add: new_Date_def Let_def assms(4)[symmetric] assms(5)[symmetric])
qed

lemma phones_of_fresh:
  assumes "list_all (\<lambda>t. t_campaign_id t \<in> set (map c_id cs)) ts"
  shows "phones_of (next_rowid (map c_id cs)) ts = {}"
proof -
  have "t_campaign_id t \<noteq> next_rowid (map c_id cs)" if "t \<in> set ts" for t
  proof
    assume eq: "t_campaign_id t = next_rowid (map c_id cs)"
    have "t_campaign_id t \<in> set (map c_id cs)" using assms that by (simp add: list_all_iff)
    then have "next_rowid (map c_id cs) \<in> set (map c_id cs)" by (simp only: eq)
    then show False using next_rowid_fresh[of "map c_id cs"] by blast
  qed
  then show ?thesis by (auto simp: phones_of_def)
qed

lemma update_fresh_campaign:
  assumes "cid \<notin> set (map c_id cs)" and "c_id c = cid"
  shows "map (\<lambda>x. if c_id x = cid then x\<lparr>c_total_targets := n\<rparr> else x) (cs @ [c])
           = cs @ [c\<lparr>c_total_targets := n\<rparr>]"
proof -
  have "map (\<lambda>x. if c_id x = cid then x\<lparr>c_total_targets := n\<rparr> else x) cs = cs"
    using assms(1) by (intro map_idI) auto
  then show ?thesis using assms(2) by simp
qed

text \<open>
  Claim C7, amended.  On a store where every target belongs to a campaign, and with a
  sender resolved: let N be the number of entries whose phone passes normalization and
  the validity check, M the number of the others, and D the number of distinct
  normalized phones among the N.  If N is zero the creation is rejected with an error
  and the campaigns and targets are as before.  Otherwise it reports
  \<open>skipped_invalid = M\<close>, \<open>inserted = D\<close> and \<open>duplicates = N - D\<close>, appends one
  campaign with \<open>total_targets = D\<close> (that is N minus the duplicates, not N), and appends
  D queued targets of that campaign, one per distinct phone.
\<close>

theorem createCampaignRecord_counts:
  assumes "list_all (\<lambda>t. t_campaign_id t \<in> set (map c_id (campaigns w))) (campaign_targets w)"
      and "ensureSender env (ca_sender_phone_id args) (ca_sender_display args) w = Inr (sid, w1)"
      and "valid = filter (valid_input (DEFAULT_COUNTRY_CODE env)) (ca_targets args)"
      and "phones = map (\<lambda>t. normalizePhone (ti_phone t) (DEFAULT_COUNTRY_CODE env)) valid"
  shows "(valid = [] \<longrightarrow>
            createCampaignRecord env args w = Inl (NoValidTargets, w1)
          \<and> campaigns w1 = campaigns w \<and> campaign_targets w1 = campaign_targets w)
       \<and> (valid \<noteq> [] \<longrightarrow>
            (\<exists>res w' new.
               createCampaignRecord env args w = Inr (res, w')
             \<and> cr_skipped_invalid res = length (ca_targets args) - length valid
             \<and> cr_inserted res = card (set phones)
             \<and> cr_duplicates res = int (length valid) - int (card (set phones))
             \<and> campaigns w' = campaigns w @
                  [\<lparr>c_id = cr_campaign_id res, c_name = ca_name args,
                    c_template_name = ca_template_name args, c_language = ca_language args,
                    c_sender_phone_id = sid, c_status = ''draft'',
                    c_created_at = d_epoch (api_clock env (clock_reads w1)),
                    c_total_targets = int (card (set phones)),
                    c_meta_json = (case ca_meta args of None \<Rightarrow> None
                                   | Some m \<Rightarrow> if js_truthy m then Some m else None)\<rparr>]
             \<and> campaign_targets w' = campaign_targets w @ new
             \<and> length new = card (set phones)
             \<and> t_phone ` set new = set phones
             \<and> list_all (\<lambda>t. t_campaign_id t = cr_campaign_id res \<and> t_status t = ''queued'') new))"
proof (intro conjI impI)
  assume "valid = []"
  then show "createCampaignRecord env args w = Inl (NoValidTargets, w1)"
    using createCampaignRecord_no_targets[OF assms(2)] assms(3) by simp
  show "campaigns w1 = campaigns w" "campaign_targets w1 = campaign_targets w"
    using ensureSender_frame[OF assms(2)] by simp_all
next
  assume ne: "valid \<noteq> []"
  define cc where "cc = DEFAULT_COUNTRY_CODE env"
  define nts where "nts = normalized_inputs cc (ca_targets args)"
  define cid where "cid = next_rowid (map c_id (campaigns w1))"
  define ins where "ins = insert_targets cid (d_epoch (api_clock env (Suc (clock_reads w1)))) nts (campaign_targets w1) 0"
  have fr: "campaigns w1 = campaigns w" "campaign_targets w1 = campaign_targets w"
    using ensureSender_frame[OF assms(2)] by simp_all
  have ph: "map fst nts = phones"
    by (simp add: nts_def normalized_inputs_def assms(3,4) cc_def o_def)
  have ln: "length nts = length valid"
    by (simp add: nts_def normalized_inputs_def assms(3) cc_def)
  have e: "phones_of cid (campaign_targets w1) = {}"
    unfolding cid_def fr using assms(1) by (rule phones_of_fresh)
  have fs: "fst ` set nts = set phones" using ph by (metis set_map)
  have cnt: "snd ins = card (set phones)"
    unfolding ins_def insert_targets_count e using fs by simp
  obtain new where new: "fst ins = campaign_targets w1 @ new"
      "length new = card (fst ` set nts - phones_of cid (campaign_targets w1))"
      "t_phone ` set new = fst ` set nts - phones_of cid (campaign_targets w1)"
      "list_all (\<lambda>t. t_campaign_id t = cid \<and> t_status t = ''queued'') new"
    unfolding ins_def
    using insert_targets_rows[of cid "d_epoch (api_clock env (Suc (clock_reads w1)))" nts "campaign_targets w1" 0]
    by blast
  have le: "card (set phones) \<le> length valid"
    using card_length[of phones] by (simp add: assms(4))
  from createCampaignRecord_ok[OF assms(2) ne[unfolded assms(3)] nts_def[unfolded cc_def] cid_def ins_def]
  obtain res w' where r: "createCampaignRecord env args w = Inr (res, w')"
      "cr_campaign_id res = cid" "cr_inserted res = snd ins"
      "cr_skipped_invalid res
         = length (ca_targets args) - length (filter (valid_input (DEFAULT_COUNTRY_CODE env)) (ca_targets args))"
      "cr_duplicates res = (if int (length nts) - int (snd ins) > 0 then int (length nts) - int (snd ins) else 0)"
      "campaign_targets w' = fst ins"
      "campaigns w' =
              map (\<lambda>c. if c_id c = cid then c\<lparr>c_total_targets := int (snd ins)\<rparr> else c)
                (campaigns w1 @
                  [\<lparr>c_id = cid, c_name = ca_name args, c_template_name = ca_template_name args,
                    c_language = ca_language args, c_sender_phone_id = sid, c_status = ''draft'',
                    c_created_at = d_epoch (api_clock env (clock_reads w1)),
                    c_total_targets = int (length nts),
                    c_meta_json = (case ca_meta args of None \<Rightarrow> None
                                   | Some m \<Rightarrow> if js_truthy m then Some m else None)\<rparr>])"
    by blast
  have c1: "cr_skipped_invalid res = length (ca_targets args) - length valid"
    using r(4) by (simp add: assms(3))
  have c2: "cr_inserted res = card (set phones)" using r(3) cnt by simp
  have c3: "cr_duplicates res = int (length valid) - int (card (set phones))"
    using r(5) le by (simp add: cnt ln)
  have c4: "campaigns w' = campaigns w @
                  [\<lparr>c_id = cr_campaign_id res, c_name = ca_name args,
                    c_template_name = ca_template_name args, c_language = ca_language args,
                    c_sender_phone_id = sid, c_status = ''draft'',
                    c_created_at = d_epoch (api_clock env (clock_reads w1)),
                    c_total_targets = int (card (set phones)),
                    c_meta_json = (case ca_meta args of None \<Rightarrow> None
                                   | Some m \<Rightarrow> if js_truthy m then Some m else None)\<rparr>]"
    unfolding r(7) r(2)
    using next_rowid_fresh[of "map c_id (campaigns w)"]
    by (subst update_fresh_campaign) (simp_all add: cid_def cnt fr)
  have c5: "campaign_targets w' = campaign_targets w @ new" using r(6) new(1) fr by simp
  have c6: "length new = card (set phones)" using new(2) e fs by simp
  have c7: "t_phone ` set new = set phones" using new(3) e fs by simp
  have c8: "list_all (\<lambda>t. t_campaign_id t = cr_campaign_id res \<and> t_status t = ''queued'') new"
    using new(4) r(2) by simp
  show "\<exists>res w' new.
               createCampaignRecord env args w = Inr (res, w')
             \<and> cr_skipped_invalid res = length (ca_targets args) - length valid
             \<and> cr_inserted res = card (set phones)
             \<and> cr_duplicates res = int (length valid) - int (card (set phones))
             \<and> campaigns w' = campaigns w @
                  [\<lparr>c_id = cr_campaign_id res, c_name = ca_name args,
                    c_template_name = ca_template_name args, c_language = ca_language args,
                    c_sender_phone_id = sid, c_status = ''draft'',
                    c_created_at = d_epoch (api_clock env (clock_reads w1)),
                    c_total_targets = int (card (set phones)),
                    c_meta_json = (case ca_meta args of None \<Rightarrow> None
                                   | Some m \<Rightarrow> if js_truthy m then Some m else None)\<rparr>]
             \<and> campaign_targets w' = campaign_targets w @ new
             \<and> length new = card (set phones)
             \<and> t_phone ` set new = set phones
             \<and> list_all (\<lambda>t. t_campaign_id t = cr_campaign_id res \<and> t_status t = ''queued'') new"
    using r(1) c1 c2 c3 c4 c5 c6 c7 c8 by blast
qed

theorem createCampaignRecord_counts_witness:
  "list_all (\<lambda>t. t_campaign_id t \<in> set (map c_id (campaigns world0))) (campaign_targets world0)
   \<and> ensureSender aenv (ca_sender_phone_id args_mixed) (ca_sender_display args_mixed) world0
       = Inr (''857608144100041'', world0_sender)
   \<and> ensureSender aenv (ca_sender_phone_id args_none_valid) (ca_sender_display args_none_valid) world0
       = Inr (''857608144100041'', world0_sender)
   \<and> length (ca_targets args_mixed) = 4 \<and> length valid_mixed = 3
   \<and> phones_mixed = [''51918131082'', ''51918131082'', ''51999888777'']
   \<and> card (set phones_mixed) = 2
   \<and> (\<exists>res w'. createCampaignRecord aenv args_mixed world0 = Inr (res, w')
          \<and> cr_skipped_invalid res = length (ca_targets args_mixed) - length valid_mixed
          \<and> cr_inserted res = card (set phones_mixed)
          \<and> cr_duplicates res = int (length valid_mixed) - int (card (set phones_mixed))
          \<and> c_total_targets (last (campaigns w')) = int (card (set phones_mixed)))
   \<and> valid_none = []
   \<and> createCampaignRecord aenv args_none_valid world0 = Inl (NoValidTargets, world0_sender)
   \<and> campaigns world0_sender = campaigns world0
   \<and> campaign_targets world0_sender = campaign_targets world0"
proof -
  have wf: "list_all (\<lambda>t. t_campaign_id t \<in> set (map c_id (campaigns world0))) (campaign_targets world0)"
    by code_simp
  have e1: "ensureSender aenv (ca_sender_phone_id args_mixed) (ca_sender_display args_mixed) world0
       = Inr (''857608144100041'', world0_sender)"
    by code_simp
  have e2: "ensureSender aenv (ca_sender_phone_id args_none_valid) (ca_sender_display args_none_valid) world0
       = Inr (''857608144100041'', world0_sender)"
    by code_simp
  have l: "length (ca_targets args_mixed) = 4" "length valid_mixed = 3" by code_simp+
  have p: "phones_mixed = [''51918131082'', ''51918131082'', ''51999888777'']" by code_simp
  have c: "card (set phones_mixed) = 2" unfolding p by simp
  have ne: "valid_mixed \<noteq> []" using l(2) by auto
  have vn: "valid_none = []" by code_simp
  note a = createCampaignRecord_counts[OF wf e1 valid_mixed_def phones_mixed_def]
  note b = createCampaignRecord_counts[OF wf e2 valid_none_def phones_none_def]
  have a': "\<exists>res w'. createCampaignRecord aenv args_mixed world0 = Inr (res, w')
          \<and> cr_skipped_invalid res = length (ca_targets args_mixed) - length valid_mixed
          \<and> cr_inserted res = card (set phones_mixed)
          \<and> cr_duplicates res = int (length valid_mixed) - int (card (set phones_mixed))
          \<and> c_total_targets (last (campaigns w')) = int (card (set phones_mixed))"
  proof -
    from a ne obtain res w' where r: "createCampaignRecord aenv args_mixed world0 = Inr (res, w')"
        "cr_skipped_invalid res = length (ca_targets args_mixed) - length valid_mixed"
        "cr_inserted res = card (set phones_mixed)"
        "cr_duplicates res = int (length valid_mixed) - int (card (set phones_mixed))"
        "campaigns w' = campaigns world0 @
                  [\<lparr>c_id = cr_campaign_id res, c_name = ca_name args_mixed,
                    c_template_name = ca_template_name args_mixed, c_language = ca_language args_mixed,
                    c_sender_phone_id = ''857608144100041'', c_status = ''draft'',
                    c_created_at = d_epoch (api_clock aenv (clock_reads world0_sender)),
                    c_total_targets = int (card (set phones_mixed)),
                    c_meta_json = (case ca_meta args_mixed of None \<Rightarrow> None
                                   | Some m \<Rightarrow> if js_truthy m then Some m else None)\<rparr>]"
      by blast
    have "c_total_targets (last (campaigns w')) = int (card (set phones_mixed))"
      unfolding r(5) by simp
    then show ?thesis using r(1-4) by blast
  qed
  have b': "createCampaignRecord aenv args_none_valid world0 = Inl (NoValidTargets, world0_sender)"
      "campaigns world0_sender = campaigns world0"
      "campaign_targets world0_sender = campaign_targets world0"
    using b vn by blast+
  show ?thesis using wf e1 e2 l p c a' vn b' by blast
qed

text \<open>
  Claim C7 as stated (\<open>total_targets = N\<close>) fails when two of the valid entries normalize
  to one phone: of four entries three pass the check, and the campaign ends with
  \<open>total_targets = 2\<close>, with one duplicate and one skipped entry reported.
\<close>

theorem duplicate_targets_lower_total_targets:
  "length (filter (\<lambda>t. isLikelyValidPhone (normalizePhone (ti_phone t) (DEFAULT_COUNTRY_CODE aenv)))
             (ca_targets args_mixed)) = 3
   \<and> (case createCampaignRecord aenv args_mixed world0 of
         Inl e \<Rightarrow> False
       | Inr (res, w') \<Rightarrow>
           c_total_targets (last (campaigns w')) = 2
         \<and> cr_inserted res = 2 \<and> cr_duplicates res = 1 \<and> cr_skipped_invalid res = 1)"
  by code_simp

lemma normalizePhone_pair:
  "normalizePhone (Some ''+51918131082'') ''51'' = ''51918131082''"
  "normalizePhone (Some ''918131082'') ''51'' = ''51918131082''"
  "normalizePhone (Some ''+51918131082'') [] = ''51918131082''"
  "normalizePhone (Some ''918131082'') [] = ''918131082''"
  by (simp_all add: normalizePhone_def is_digit_def)

lemma insert_targets_same_phone_twice:
  assumes "phones_of cid ts = {}"
  shows "insert_targets cid now [(p, a), (p, b)] ts 0 =
           (ts @ [\<lparr>t_id = next_rowid (map t_id ts), t_campaign_id = cid, t_phone = p,
                     t_vars_json = or_empty_object (Some a), t_status = ''queued'', t_last_error = None,
                     t_wa_message_id = None, t_created_at = now, t_updated_at = now\<rparr>], 1)"
proof -
  let ?row = "\<lparr>t_id = next_rowid (map t_id ts), t_campaign_id = cid, t_phone = p,
                     t_vars_json = or_empty_object (Some a), t_status = ''queued'', t_last_error = None,
                     t_wa_message_id = None, t_created_at = now, t_updated_at = now\<rparr>"
  have 1: "insert_target cid p (or_empty_object (Some a)) now ts = Some (ts @ [?row])"
    using assms by (simp add: insert_target_Some)
  have "p \<in> phones_of cid (ts @ [?row])" by (simp add: phones_of_snoc)
  then have 2: "insert_target cid p (or_empty_object (Some b)) now (ts @ [?row]) = None"
    by (rule insert_target_None)
  show ?thesis by (simp add: 1 2)
qed

text \<open>
  Claim C8, amended.  With the default country code 51 configured, the inputs
  +51918131082 and 918131082 both normalize to 51918131082, and a campaign created with
  exactly those two targets (on a store where every target belongs to a campaign, with a
  sender resolved) appends one target row, for that phone with the first entry's
  variables, and reports \<open>inserted = 1\<close>, \<open>duplicates = 1\<close>, \<open>skipped_invalid = 0\<close>.
\<close>

theorem same_phone_twice_inserted_once:
  assumes "list_all (\<lambda>t. t_campaign_id t \<in> set (map c_id (campaigns w))) (campaign_targets w)"
      and "ensureSender env (ca_sender_phone_id args) (ca_sender_display args) w = Inr (sid, w1)"
      and "DEFAULT_COUNTRY_CODE env = ''51''"
      and "ca_targets args = [\<lparr>ti_phone = Some ''+51918131082'', ti_vars = v1\<rparr>,
                              \<lparr>ti_phone = Some ''918131082'', ti_vars = v2\<rparr>]"
  shows "normalizePhone (Some ''+51918131082'') (DEFAULT_COUNTRY_CODE env) = ''51918131082''
       \<and> normalizePhone (Some ''918131082'') (DEFAULT_COUNTRY_CODE env) = ''51918131082''
       \<and> (\<exists>res w' row.
             createCampaignRecord env args w = Inr (res, w')
           \<and> cr_inserted res = 1 \<and> cr_duplicates res = 1 \<and> cr_skipped_invalid res = 0
           \<and> campaign_targets w' = campaign_targets w @ [row]
           \<and> t_phone row = ''51918131082'' \<and> t_campaign_id row = cr_campaign_id res
           \<and> t_vars_json row = or_empty_object v1 \<and> t_status row = ''queued'')"
proof -
  define cid where "cid = next_rowid (map c_id (campaigns w1))"
  define now where "now = d_epoch (api_clock env (Suc (clock_reads w1)))"
  define nts where "nts = normalized_inputs (DEFAULT_COUNTRY_CODE env) (ca_targets args)"
  define ins where "ins = insert_targets cid now nts (campaign_targets w1) 0"
  have fr: "campaigns w1 = campaigns w" "campaign_targets w1 = campaign_targets w"
    using ensureSender_frame[OF assms(2)] by simp_all
  have v: "isLikelyValidPhone ''51918131082''"
    by (simp add: isLikelyValidPhone_def phone_pattern_def is_digit_def)
  have f: "filter (valid_input (DEFAULT_COUNTRY_CODE env)) (ca_targets args) = ca_targets args"
    by (simp add: assms(3,4) valid_input_def normalizePhone_pair v)
  have n: "nts = [(''51918131082'', or_empty_object v1), (''51918131082'', or_empty_object v2)]"
    by (simp add: nts_def normalized_inputs_def f) (simp add: assms(3,4) normalizePhone_pair)
  have e: "phones_of cid (campaign_targets w1) = {}"
    unfolding cid_def fr using assms(1) by (rule phones_of_fresh)
  have oo: "or_empty_object (Some (or_empty_object v1)) = or_empty_object v1"
    by (simp add: or_empty_object_def split: option.split)
  let ?row = "\<lparr>t_id = next_rowid (map t_id (campaign_targets w1)), t_campaign_id = cid,
                t_phone = ''51918131082'', t_vars_json = or_empty_object v1, t_status = ''queued'',
                t_last_error = None, t_wa_message_id = None, t_created_at = now, t_updated_at = now\<rparr>"
  have i: "ins = (campaign_targets w1 @ [?row], 1)"
    unfolding ins_def n insert_targets_same_phone_twice[OF e] by (simp add: oo)
  have ne: "filter (valid_input (DEFAULT_COUNTRY_CODE env)) (ca_targets args) \<noteq> []"
    unfolding f by (simp add: assms(4))
  from createCampaignRecord_ok[OF assms(2) ne nts_def cid_def ins_def[unfolded now_def]]
  obtain res w' where r: "createCampaignRecord env args w = Inr (res, w')"
      "cr_campaign_id res = cid" "cr_inserted res = snd ins"
      "cr_skipped_invalid res
         = length (ca_targets args) - length (filter (valid_input (DEFAULT_COUNTRY_CODE env)) (ca_targets args))"
      "cr_duplicates res = (if int (length nts) - int (snd ins) > 0 then int (length nts) - int (snd ins) else 0)"
      "campaign_targets w' = fst ins"
    by blast
  have "cr_inserted res = 1" using r(3) i by simp
  moreover have "cr_duplicates res = 1" using r(5) i n by simp
  moreover have "cr_skipped_invalid res = 0" using r(4) f by simp
  moreover have "campaign_targets w' = campaign_targets w @ [?row]" using r(6) i fr by simp
  moreover have "t_phone ?row = ''51918131082''" "t_campaign_id ?row = cr_campaign_id res"
     "t_vars_json ?row = or_empty_object v1" "t_status ?row = ''queued''"
    using r(2) by simp_all
  ultimately have "\<exists>res w' row.
             createCampaignRecord env args w = Inr (res, w')
           \<and> cr_inserted res = 1 \<and> cr_duplicates res = 1 \<and> cr_skipped_invalid res = 0
           \<and> campaign_targets w' = campaign_targets w @ [row]
           \<and> t_phone row = ''51918131082'' \<and> t_campaign_id row = cr_campaign_id res
           \<and> t_vars_json row = or_empty_object v1 \<and> t_status row = ''queued''"
    using r(1) by blast
  then show ?thesis by (simp add: assms(3) normalizePhone_pair)
qed

theorem same_phone_twice_inserted_once_witness:
  "list_all (\<lambda>t. t_campaign_id t \<in> set (map c_id (campaigns world0))) (campaign_targets world0)
   \<and> ensureSender aenv (ca_sender_phone_id args_pair) (ca_sender_display args_pair) world0
       = Inr (''857608144100041'', world0_sender)
   \<and> DEFAULT_COUNTRY_CODE aenv = ''51''
   \<and> ca_targets args_pair = [\<lparr>ti_phone = Some ''+51918131082'', ti_vars = None\<rparr>,
                              \<lparr>ti_phone = Some ''918131082'', ti_vars = None\<rparr>]
   \<and> normalizePhone (Some ''+51918131082'') (DEFAULT_COUNTRY_CODE aenv) = ''51918131082''
   \<and> normalizePhone (Some ''918131082'') (DEFAULT_COUNTRY_CODE aenv) = ''51918131082''
   \<and> (\<exists>res w' row.
             createCampaignRecord aenv args_pair world0 = Inr (res, w')
           \<and> cr_inserted res = 1 \<and> cr_duplicates res = 1 \<and> cr_skipped_invalid res = 0
           \<and> campaign_targets w' = campaign_targets world0 @ [row]
           \<and> t_phone row = ''51918131082'' \<and> t_campaign_id row = cr_campaign_id res
           \<and> t_vars_json row = or_empty_object None \<and> t_status row = ''queued'')"
proof -
  have wf: "list_all (\<lambda>t. t_campaign_id t \<in> set (map c_id (campaigns world0))) (campaign_targets world0)"
    by code_simp
  have e: "ensureSender aenv (ca_sender_phone_id args_pair) (ca_sender_display args_pair) world0
       = Inr (''857608144100041'', world0_sender)"
    by code_simp
  have c: "DEFAULT_COUNTRY_CODE aenv = ''51''" by (simp add: aenv_def)
  have t: "ca_targets args_pair = [\<lparr>ti_phone = Some ''+51918131082'', ti_vars = None\<rparr>,
                              \<lparr>ti_phone = Some ''918131082'', ti_vars = None\<rparr>]"
    by (simp add: args_pair_def)
  show ?thesis
    using same_phone_twice_inserted_once[OF wf e c t] wf e c t by blast
qed

text \<open>
  Claim C8 as stated fails without a default country code (the setting when the
  environment gives none): the two inputs normalize to 51918131082 and 918131082, both
  valid and different, and both are inserted, with no duplicate reported.
\<close>

theorem no_country_code_both_inserted:
  "DEFAULT_COUNTRY_CODE aenv_no_cc = []
   \<and> normalizePhone (Some ''+51918131082'') (DEFAULT_COUNTRY_CODE aenv_no_cc) = ''51918131082''
   \<and> normalizePhone (Some ''918131082'') (DEFAULT_COUNTRY_CODE aenv_no_cc) = ''918131082''
   \<and> (case createCampaignRecord aenv_no_cc args_pair world0 of
         Inl e \<Rightarrow> False
       | Inr (res, w') \<Rightarrow>
           cr_inserted res = 2 \<and> cr_duplicates res = 0 \<and> cr_skipped_invalid res = 0
         \<and> map t_phone (drop (length (campaign_targets world0)) (campaign_targets w'))
             = [''51918131082'', ''918131082''])"
  by code_simp

section \<open>Properties of the status callbacks\<close>

lemma js_get_Some_truthy: "js_get k v = Some x \<Longrightarrow> js_truthy v \<and> v \<noteq> JNull"
  by (cases v) simp_all

lemma recordEvent_ok:
  "bind_args 4 [Js waMessageId, Js (Some ty), Scalar, Scalar] = Inr vs \<Longrightarrow>
   column_text (param vs 1) = Some tytext \<Longrightarrow> js_truthy payload \<Longrightarrow>
   recordEvent env waMessageId ty payload w =
     Inr (w\<lparr>clock_reads := Suc (clock_reads w),
           events := events w @
             [\<lparr>e_id = next_rowid (map e_id (events w)), e_wa_message_id = column_text (param vs 0),
               e_type = tytext, e_payload_json = payload,
               e_created_at = d_epoch (wh_clock env (clock_reads w))\<rparr>]\<rparr>)"
  by (simp add: recordEvent_def new_Date_def)

lemma find_None_list_all:
  "list_all (\<lambda>t. \<not> P t) ts \<Longrightarrow> find P ts = None"
  by (induction ts) simp_all

lemma handle_status_unmatched:
  assumes "js_get ''id'' status = Some messageId" and "js_truthy messageId"
      and "bind_args 4 [Js (Some messageId), Js (Some (status_type status)), Scalar, Scalar] = Inr vs"
      and "column_text (param vs 1) = Some tytext"
      and "bind_message_id messageId = Inr mid"
      and "list_all (\<lambda>t. mid = None \<or> t_wa_message_id t \<noteq> mid) (campaign_targets w)"
  shows "handle_status env status w =
     Inr (w\<lparr>clock_reads := Suc (clock_reads w),
           events := events w @
             [\<lparr>e_id = next_rowid (map e_id (events w)), e_wa_message_id = column_text (param vs 0),
               e_type = tytext, e_payload_json = status,
               e_created_at = d_epoch (wh_clock env (clock_reads w))\<rparr>]\<rparr>)"
proof -
  have n: "js_truthy status" "status \<noteq> JNull" using js_get_Some_truthy[OF assms(1)] by simp_all
  have f: "find (\<lambda>t. mid \<noteq> None \<and> t_wa_message_id t = mid) (campaign_targets w) = None"
    using assms(6) by (intro find_None_list_all) (simp add: list_all_iff)
  have r: "recordEvent env (Some messageId) (status_type status) status w =
     Inr (w\<lparr>clock_reads := Suc (clock_reads w),
           events := events w @
             [\<lparr>e_id = next_rowid (map e_id (events w)), e_wa_message_id = column_text (param vs 0),
               e_type = tytext, e_payload_json = status,
               e_created_at = d_epoch (wh_clock env (clock_reads w))\<rparr>]\<rparr>)"
    using assms(3,4) n(1) by (rule recordEvent_ok)
  show ?thesis
    unfolding handle_status_def
    using n(2) assms(1,2,5) f
    by (simp add: r)
qed

lemma handle_statuses_append:
  "handle_statuses env pre w0 = Inr w \<Longrightarrow>
   handle_statuses env (pre @ ss) w0 = handle_statuses env ss w"
  by (induction pre arbitrary: w0) (auto split: sum.splits)

text \<open>
  A status for a message that a target carries does change that target; a numeric id is
  compared as the text SQLite makes of it.
\<close>

lemma matched_status_updates_target:
  "map t_status (campaign_targets (result_world (handle_status whenv status_known world_sent)))
     = [''delivered'', ''queued'', ''queued'', ''queued'']"
  "map e_wa_message_id (events (result_world (handle_status whenv status_known world_sent)))
     = [Some ''wamid.A'']"
  "map t_status (campaign_targets (result_world (handle_status whenv status_unknown_failed world_real)))
     = [''failed'', ''queued'', ''queued'', ''queued'']"
  "map e_wa_message_id (events (result_world (handle_status whenv status_unknown_failed world_real)))
     = [Some ''42.0'']"
  by code_simp+

text \<open>
  Claim C9, amended.  In the loop over the statuses of a callback, when the statuses
  before it have been handled without an error: a status that has a truthy id, whose id
  and type bind to the INSERT (as one value each, the type not NULL) and whose id binds
  to the SELECT, and whose id no target carries as its \<open>wa_message_id\<close>, adds one row to
  \<open>events\<close>, with the id, the type and the status itself as payload.  It reads the clock
  once and changes nothing else (the targets, campaigns, messages, senders and queue
  are those before, no request is sent and no comment posted), and the loop goes on with
  the next status.  The witness is a status with the numeric id 42, stored as the text
  \<open>42.0\<close>, after a status that matched a target.
\<close>

theorem unmatched_status_is_only_recorded:
  assumes "handle_statuses env pre w0 = Inr w"
      and "js_get ''id'' status = Some messageId" and "js_truthy messageId"
      and "bind_args 4 [Js (Some messageId), Js (Some (status_type status)), Scalar, Scalar] = Inr vs"
      and "column_text (param vs 1) = Some tytext"
      and "bind_message_id messageId = Inr mid"
      and "list_all (\<lambda>t. mid = None \<or> t_wa_message_id t \<noteq> mid) (campaign_targets w)"
  shows "handle_status env status w =
           Inr (w\<lparr>clock_reads := Suc (clock_reads w),
                 events := events w @
                   [\<lparr>e_id = next_rowid (map e_id (events w)),
                     e_wa_message_id = column_text (param vs 0),
                     e_type = tytext, e_payload_json = status,
                     e_created_at = d_epoch (wh_clock env (clock_reads w))\<rparr>]\<rparr>)
       \<and> handle_statuses env (pre @ status # post) w0 =
           handle_statuses env post
             (w\<lparr>clock_reads := Suc (clock_reads w),
                events := events w @
                  [\<lparr>e_id = next_rowid (map e_id (events w)),
                    e_wa_message_id = column_text (param vs 0),
                    e_type = tytext, e_payload_json = status,
                    e_created_at = d_epoch (wh_clock env (clock_reads w))\<rparr>]\<rparr>)"
proof -
  note h = handle_status_unmatched[OF assms(2-7), of env]
  have "handle_statuses env (pre @ status # post) w0 = handle_statuses env (status # post) w"
    using assms(1) by (rule handle_statuses_append)
  then show ?thesis using h by simp
qed

theorem unmatched_status_is_only_recorded_witness:
  "handle_statuses whenv [status_known] world_sent = Inr world_known
   \<and> js_get ''id'' status_unknown_failed = Some (JNum 42) \<and> js_truthy (JNum 42)
   \<and> bind_args 4 [Js (Some (JNum 42)), Js (Some (status_type status_unknown_failed)), Scalar, Scalar]
       = Inr [SqlReal 42, SqlText ''failed'']
   \<and> column_text (param [SqlReal 42, SqlText ''failed''] 1) = Some ''failed''
   \<and> bind_message_id (JNum 42) = Inr (Some ''42.0'')
   \<and> list_all (\<lambda>t. Some ''42.0'' = None \<or> t_wa_message_id t \<noteq> Some ''42.0'') (campaign_targets world_known)
   \<and> handle_status whenv status_unknown_failed world_known =
           Inr (world_known\<lparr>clock_reads := Suc (clock_reads world_known),
                 events := events world_known @
                   [\<lparr>e_id = next_rowid (map e_id (events world_known)),
                     e_wa_message_id = column_text (param [SqlReal 42, SqlText ''failed''] 0),
                     e_type = ''failed'', e_payload_json = status_unknown_failed,
                     e_created_at = d_epoch (wh_clock whenv (clock_reads world_known))\<rparr>]\<rparr>)
   \<and> handle_statuses whenv ([status_known] @ status_unknown_failed # [status_unknown]) world_sent =
           handle_statuses whenv [status_unknown]
             (world_known\<lparr>clock_reads := Suc (clock_reads world_known),
                events := events world_known @
                  [\<lparr>e_id = next_rowid (map e_id (events world_known)),
                    e_wa_message_id = column_text (param [SqlReal 42, SqlText ''failed''] 0),
                    e_type = ''failed'', e_payload_json = status_unknown_failed,
                    e_created_at = d_epoch (wh_clock whenv (clock_reads world_known))\<rparr>]\<rparr>)
   \<and> map e_wa_message_id
         (events (result_world (handle_statuses whenv [status_known, status_unknown_failed, status_unknown] world_sent)))
       = [Some ''wamid.A'', Some ''42.0'', Some ''wamid.UNKNOWN'']
   \<and> map t_status
         (campaign_targets (result_world (handle_statuses whenv [status_known, status_unknown_failed, status_unknown] world_sent)))
       = [''delivered'', ''queued'', ''queued'', ''queued'']"
proof -
  have a: "handle_statuses whenv [status_known] world_sent = Inr world_known" by code_simp
  have b: "js_get ''id'' status_unknown_failed = Some (JNum 42)" by code_simp
  have c: "js_truthy (JNum 42)" by simp
  have d: "bind_args 4 [Js (Some (JNum 42)), Js (Some (status_type status_unknown_failed)), Scalar, Scalar]
       = Inr [SqlReal 42, SqlText ''failed'']" by code_simp
  have e: "column_text (param [SqlReal 42, SqlText ''failed''] 1) = Some ''failed''" by code_simp
  have f: "bind_message_id (JNum 42) = Inr (Some ''42.0'')" by code_simp
  have g: "list_all (\<lambda>t. Some ''42.0'' = None \<or> t_wa_message_id t \<noteq> Some ''42.0'') (campaign_targets world_known)"
    by code_simp
  have i: "map e_wa_message_id
         (events (result_world (handle_statuses whenv [status_known, status_unknown_failed, status_unknown] world_sent)))
       = [Some ''wamid.A'', Some ''42.0'', Some ''wamid.UNKNOWN'']" by code_simp
  have j: "map t_status
         (campaign_targets (result_world (handle_statuses whenv [status_known, status_unknown_failed, status_unknown] world_sent)))
       = [''delivered'', ''queued'', ''queued'', ''queued'']" by code_simp
  note t = unmatched_status_is_only_recorded[OF a b c d e f g, of "[status_unknown]"]
  show ?thesis
    by (intro conjI a b c d e f g i j conjunct1[OF t] conjunct2[OF t])
qed

text \<open>
  Claim C9 as stated fails, for a status whose id matches no target: a status without id
  is skipped and not recorded; a status whose type is a boolean cannot be bound, the
  INSERT throws and nothing is recorded; and the error ends the loop, so that the
  status after it, with an id no target has, is not recorded either.
\<close>

theorem status_event_not_recorded:
  "handle_status whenv status_no_id world_sent = Inr world_sent
   \<and> map t_wa_message_id (campaign_targets world_sent) = [Some ''wamid.A'', None, None, None]
   \<and> js_get ''id'' status_bool_type = Some (JStr ''wamid.UNKNOWN'')
   \<and> handle_status whenv status_bool_type world_sent =
       Inl (''SQLite3 can only bind numbers, strings, bigints, buffers, and null'',
            world_sent\<lparr>clock_reads := Suc (clock_reads world_sent)\<rparr>)
   \<and> js_get ''id'' status_unknown = Some (JStr ''wamid.UNKNOWN'')
   \<and> handle_statuses whenv [status_bool_type, status_unknown] world_sent =
       Inl (''SQLite3 can only bind numbers, strings, bigints, buffers, and null'',
            world_sent\<lparr>clock_reads := Suc (clock_reads world_sent)\<rparr>)
   \<and> events world_sent = []"
  by code_simp

section \<open>Properties of the campaign gate over a tick\<close>

lemma update_target_keys:
  assumes "\<And>t. target_key (f t) = target_key t"
  shows "map target_key (update_target i f ts) = map target_key ts"
  using assms by (induction ts) (simp_all add: update_target_def)

lemma mark_sending_keys:
  "map target_key (campaign_targets (mark_sending env tgt w)) = map target_key (campaign_targets w)"
  by (simp add: mark_sending_frame update_target_keys target_key_def)

lemma catch_send_keys:
  "map target_key (campaign_targets (catch_send env tgt jb msg w)) = map target_key (campaign_targets w)"
  by (simp add: catch_send_targets update_target_keys target_key_def)

lemma record_sent_keys:
  "map target_key (campaign_targets (result_world (record_sent env camp tgt jb cs resp w)))
     = map target_key (campaign_targets w)"
proof (cases "bind_wa_id (wa_id_of resp)")
  case (Inl msg)
  show ?thesis by (simp add: record_sent_Inl[OF Inl] result_world_simps)
next
  case (Inr v)
  show ?thesis
    by (simp add: record_sent_Inr[OF Inr] result_world_simps update_target_keys target_key_def)
qed

lemma try_send_keys:
  "map target_key (campaign_targets (result_world (try_send env camp tgt jb w)))
     = map target_key (campaign_targets w)"
proof (cases "Object_values (t_vars_json tgt)")
  case None
  then show ?thesis by (simp add: try_send_None result_world_simps mark_sending_keys)
next
  case (Some vals)
  show ?thesis
  proof (cases "wa_api env (length (wa_calls w)) (request_for env camp tgt (body_components vals))")
    case (Http_ok resp)
    show ?thesis
      by (simp add: try_send_ok[OF Some Http_ok] record_sent_keys mark_sending_keys)
  next
    case (Http_error msg)
    show ?thesis
      by (simp add: try_send_error[OF Some Http_error] result_world_simps mark_sending_keys)
  qed
qed

lemma process_job_keys:
  "map target_key (campaign_targets (process_job env jb w)) = map target_key (campaign_targets w)"
proof (cases rule: process_job_cases[of jb w])
  case no_campaign
  then show ?thesis by (simp add: process_job_no_campaign)
next
  case (gated camp)
  then show ?thesis by (simp add: process_job_gate)
next
  case (no_target camp)
  then show ?thesis by (simp add: process_job_no_target)
next
  case (bad_phone camp tgt)
  then show ?thesis by (simp add: process_job_bad_phone update_target_keys target_key_def)
next
  case (send camp tgt)
  show ?thesis
  proof (cases "try_send env camp tgt jb w")
    case (Inl a)
    obtain msg w' where a: "a = (msg, w')" by (cases a)
    have "map target_key (campaign_targets w') = map target_key (campaign_targets w)"
      using try_send_keys[of env camp tgt jb w] by (simp add: Inl a result_world_simps)
    then show ?thesis
      by (simp add: process_job_send[OF send] Inl a catch_send_keys)
  next
    case (Inr w')
    have "map target_key (campaign_targets w') = map target_key (campaign_targets w)"
      using try_send_keys[of env camp tgt jb w] by (simp add: Inr result_world_simps)
    then show ?thesis
      by (simp add: process_job_send[OF send] Inr)
  qed
qed

lemma find_keys:
  "map target_key ts = map target_key ts' \<Longrightarrow>
   (find (\<lambda>t. t_id t = i) ts = None \<and> find (\<lambda>t. t_id t = i) ts' = None)
   \<or> (\<exists>t t'. find (\<lambda>t. t_id t = i) ts = Some t \<and> find (\<lambda>t. t_id t = i) ts' = Some t'
             \<and> t_phone t = t_phone t' \<and> t_vars_json t = t_vars_json t')"
proof (induction ts arbitrary: ts')
  case Nil
  then show ?case by simp
next
  case (Cons a ts)
  then obtain b us where u: "ts' = b # us" "target_key a = target_key b"
    "map target_key ts = map target_key us" by (cases ts') auto
  show ?case
  proof (cases "t_id a = i")
    case True
    then show ?thesis using u(1,2) by (simp add: target_key_def)
  next
    case False
    then show ?thesis using u(1,2) Cons.IH[OF u(3)] by (simp add: target_key_def)
  qed
qed

lemma job_requests_keys:
  assumes "map target_key ts = map target_key ts'"
  shows "job_requests env cs ts = job_requests env cs ts'"
proof
  fix jb
  from find_keys[OF assms, of "j_target_id jb"]
  show "job_requests env cs ts jb = job_requests env cs ts' jb"
  proof (elim disjE exE conjE)
    assume "find (\<lambda>t. t_id t = j_target_id jb) ts = None" "find (\<lambda>t. t_id t = j_target_id jb) ts' = None"
    then show ?thesis by (simp add: job_requests_def split: option.split)
  next
    fix t t'
    assume "find (\<lambda>t. t_id t = j_target_id jb) ts = Some t" "find (\<lambda>t. t_id t = j_target_id jb) ts' = Some t'"
      "t_phone t = t_phone t'" "t_vars_json t = t_vars_json t'"
    then show ?thesis by (simp add: job_requests_def request_for_def split: option.split)
  qed
qed

lemma process_job_requests:
  "wa_calls (process_job env jb w) = wa_calls w @ job_requests env (campaigns w) (campaign_targets w) jb"
proof (cases rule: process_job_cases[of jb w])
  case no_campaign
  then show ?thesis by (simp add: process_job_no_campaign job_requests_def)
next
  case (gated camp)
  then show ?thesis by (simp add: process_job_gate job_requests_def)
next
  case (no_target camp)
  then show ?thesis by (simp add: process_job_no_target job_requests_def)
next
  case (bad_phone camp tgt)
  then show ?thesis by (simp add: process_job_bad_phone job_requests_def)
next
  case (send camp tgt)
  then show ?thesis
    by (simp add: process_job_send_world(1)[OF send] try_send_calls job_requests_def split: option.split)
qed

lemma fold_process_job_keys:
  "map target_key (campaign_targets (fold (process_job env) js w)) = map target_key (campaign_targets w)"
  by (induction js arbitrary: w) (simp_all add: process_job_keys)

lemma fold_process_job_requests:
  "wa_calls (fold (process_job env) js w) =
     wa_calls w @ concat (map (job_requests env (campaigns w) (campaign_targets w)) js)"
proof (induction js arbitrary: w)
  case Nil
  then show ?case by simp
next
  case (Cons jb js)
  have k: "job_requests env (campaigns w) (campaign_targets (process_job env jb w))
         = job_requests env (campaigns w) (campaign_targets w)"
    by (rule job_requests_keys) (rule process_job_keys)
  show ?case
    by (simp add: Cons.IH process_job_campaigns process_job_requests k)
qed

lemma map_q_id_upd:
  "(\<And>r. q_id (f r) = q_id r) \<Longrightarrow> map q_id (map (\<lambda>r. if q_id r = j then f r else r) q) = map q_id q"
  by (induction q) simp_all

lemma filter_upd_other:
  "(\<And>r. q_id (f r) = q_id r) \<Longrightarrow> i \<noteq> j \<Longrightarrow>
   filter (\<lambda>r. q_id r = i) (map (\<lambda>r. if q_id r = j then f r else r) q) = filter (\<lambda>r. q_id r = i) q"
  by (induction q) simp_all

lemma markFailed_ids: "map q_id (markFailed now i b q) = map q_id q"
  unfolding markFailed_def Let_def by (rule map_q_id_upd) simp

lemma markDone_other:
  "i \<noteq> j \<Longrightarrow> filter (\<lambda>r. q_id r = i) (markDone j q) = filter (\<lambda>r. q_id r = i) q"
  unfolding markDone_def set_queue_status_def by (rule filter_upd_other) simp_all

lemma markFailed_other:
  "i \<noteq> j \<Longrightarrow> filter (\<lambda>r. q_id r = i) (markFailed now j b q) = filter (\<lambda>r. q_id r = i) q"
  unfolding markFailed_def Let_def by (rule filter_upd_other) simp_all

lemma catch_send_queue:
  "queue (catch_send env tgt jb msg w) =
     markFailed (d_epoch (clock env (Suc (clock_reads w)))) (j_id jb) 3000 (queue w)"
  by (simp add: catch_send_def new_Date_def Let_def)

lemma try_send_queue:
  "(\<exists>msg w'. try_send env camp tgt jb w = Inl (msg, w') \<and> queue w' = queue w)
   \<or> (\<exists>w'. try_send env camp tgt jb w = Inr w' \<and> queue w' = markDone (j_id jb) (queue w))"
proof (cases "Object_values (t_vars_json tgt)")
  case None
  then show ?thesis by (simp add: try_send_None mark_sending_frame)
next
  case (Some vals)
  show ?thesis
  proof (cases "wa_api env (length (wa_calls w)) (request_for env camp tgt (body_components vals))")
    case (Http_error msg)
    show ?thesis by (simp add: try_send_error[OF Some Http_error] mark_sending_frame)
  next
    case (Http_ok resp)
    show ?thesis
    proof (cases "bind_wa_id (wa_id_of resp)")
      case (Inl msg)
      show ?thesis
        by (simp add: try_send_ok[OF Some Http_ok] record_sent_Inl[OF Inl] mark_sending_frame)
    next
      case (Inr v)
      show ?thesis
        by (simp add: try_send_ok[OF Some Http_ok] record_sent_Inr[OF Inr] mark_sending_frame)
    qed
  qed
qed

lemma process_job_queue:
  "queue (process_job env jb w) = markDone (j_id jb) (queue w)
   \<or> (\<exists>now. queue (process_job env jb w) = markFailed now (j_id jb) 3000 (queue w))"
proof (cases rule: process_job_cases[of jb w])
  case no_campaign
  then show ?thesis by (simp add: process_job_no_campaign)
next
  case (gated camp)
  then show ?thesis by (simp add: process_job_gate)
next
  case (no_target camp)
  then show ?thesis by (simp add: process_job_no_target)
next
  case (bad_phone camp tgt)
  then show ?thesis by (simp add: process_job_bad_phone)
next
  case (send camp tgt)
  from try_send_queue[of env camp tgt jb w]
  show ?thesis
  proof (elim disjE exE conjE)
    fix msg w'
    assume "try_send env camp tgt jb w = Inl (msg, w')" "queue w' = queue w"
    then have "queue (process_job env jb w) =
        markFailed (d_epoch (clock env (Suc (clock_reads w')))) (j_id jb) 3000 (queue w)"
      by (simp add: process_job_send[OF send] catch_send_queue)
    then show ?thesis by blast
  next
    fix w'
    assume "try_send env camp tgt jb w = Inr w'" "queue w' = markDone (j_id jb) (queue w)"
    then show ?thesis by (simp add: process_job_send[OF send])
  qed
qed

lemma process_job_queue_ids: "map q_id (queue (process_job env jb w)) = map q_id (queue w)"
  using process_job_queue[of env jb w] by (auto simp: markDone_ids markFailed_ids)

lemma process_job_queue_other:
  "i \<noteq> j_id jb \<Longrightarrow>
   filter (\<lambda>r. q_id r = i) (queue (process_job env jb w)) = filter (\<lambda>r. q_id r = i) (queue w)"
  using process_job_queue[of env jb w] by (auto simp: markDone_other markFailed_other)

lemma fold_process_job_queue_ids:
  "map q_id (queue (fold (process_job env) js w)) = map q_id (queue w)"
  by (induction js arbitrary: w) (simp_all add: process_job_queue_ids)

lemma fold_process_job_queue_other:
  "i \<notin> j_id ` set js \<Longrightarrow>
   filter (\<lambda>r. q_id r = i) (queue (fold (process_job env) js w)) = filter (\<lambda>r. q_id r = i) (queue w)"
  by (induction js arbitrary: w) (simp_all add: process_job_queue_other)

lemma select_batch_distinct:
  "distinct (map q_id q) \<Longrightarrow> distinct (map q_id (select_batch now limit q))"
proof -
  assume d: "distinct (map q_id q)"
  have "distinct (map q_id (filter (\<lambda>r. q_status r = ''queued'' \<and> q_available_at r \<le> now) q))"
    using d by (rule distinct_map_filter)
  then have "distinct (map q_id (sort_key q_id (filter (\<lambda>r. q_status r = ''queued'' \<and> q_available_at r \<le> now) q)))"
    by (rule distinct_map_sort_key)
  then show ?thesis by (simp add: select_batch_def take_map[symmetric] distinct_take)
qed

lemma fetchBatch_queue_ids: "map q_id (snd (fetchBatch now limit q)) = map q_id q"
  by (subst fetchBatch_table) (induction q; simp)

lemma all_filter_done:
  "list_all (\<lambda>r. q_id r = i \<longrightarrow> q_status r = s) q \<longleftrightarrow> list_all (\<lambda>r. q_status r = s) (filter (\<lambda>r. q_id r = i) q)"
  by (induction q) simp_all

lemma job_requests_gated:
  "find (\<lambda>c. c_id c = j_campaign_id jb) cs = Some camp \<Longrightarrow>
   c_status camp \<in> {''paused'', ''canceled'', ''done'', ''error''} \<Longrightarrow>
   job_requests env cs ts jb = []"
  by (simp add: job_requests_def)

lemma tick_claimed:
  assumes "inWindow (clock env (clock_reads w)) (WINDOW env)"
      and "fetchBatch (d_epoch (clock env (Suc (clock_reads w)))) (BATCH_SIZE env) (queue w) = (batch, q')"
      and "batch \<noteq> []"
  shows "tick env w = sweep (fold (process_job env) batch (w\<lparr>clock_reads := Suc (Suc (clock_reads w)), queue := q'\<rparr>))"
  using assms(2,3) by (simp add: tick_inside_window[OF assms(1)])

text \<open>
  Claim C5.  When the campaign of a claimed entry has status paused, canceled, done or
  error, the loop body only marks the entry done: no request goes to the messaging API,
  and the targets (and every table but the queue) are as before.  And in a tick that
  claims the entry (inside the delivery window, the queue's ids distinct): the campaigns
  are, when the entry's turn comes, those at the start of the tick; the entry's turn is
  that marking alone; when the tick ends the entry is in the queue and done; and the
  requests the tick has sent are exactly those of the other jobs of the batch, one for
  each job whose own campaign is in none of the four states and whose target has a
  phone matching the pattern and variables that are not null.  The witness is a tick in
  which a paused campaign shares its template and sender with a running one.
\<close>

theorem worker_drops_entry_of_gated_campaign:
  assumes "find (\<lambda>c. c_id c = j_campaign_id jb) (campaigns w) = Some camp"
      and "c_status camp \<in> {''paused'', ''canceled'', ''done'', ''error''}"
  shows "process_job env jb w = w\<lparr>queue := markDone (j_id jb) (queue w)\<rparr>
       \<and> list_all (\<lambda>r. q_id r = j_id jb \<longrightarrow> q_status r = ''done'') (queue (process_job env jb w))
       \<and> wa_calls (process_job env jb w) = wa_calls w
       \<and> campaign_targets (process_job env jb w) = campaign_targets w
       \<and> (inWindow (clock env (clock_reads w)) (WINDOW env)
          \<and> distinct (map q_id (queue w))
          \<and> fetchBatch (d_epoch (clock env (Suc (clock_reads w)))) (BATCH_SIZE env) (queue w)
              = (pre @ jb # post, q')
          \<longrightarrow> (let wp = fold (process_job env) pre
                            (w\<lparr>clock_reads := Suc (Suc (clock_reads w)), queue := q'\<rparr>)
               in campaigns wp = campaigns w
                \<and> process_job env jb wp = wp\<lparr>queue := markDone (j_id jb) (queue wp)\<rparr>
                \<and> tick env w =
                    sweep (fold (process_job env) post (wp\<lparr>queue := markDone (j_id jb) (queue wp)\<rparr>))
                \<and> j_id jb \<in> q_id ` set (queue (tick env w))
                \<and> list_all (\<lambda>r. q_id r = j_id jb \<longrightarrow> q_status r = ''done'') (queue (tick env w))
                \<and> new_calls w (tick env w) =
                    concat (map (job_requests env (campaigns w) (campaign_targets w)) (pre @ post))))"
proof -
  have e: "process_job env jb w = w\<lparr>queue := markDone (j_id jb) (queue w)\<rparr>"
    using assms by (rule process_job_gate)
  have step: "process_job env jb w = w\<lparr>queue := markDone (j_id jb) (queue w)\<rparr>
       \<and> list_all (\<lambda>r. q_id r = j_id jb \<longrightarrow> q_status r = ''done'') (queue (process_job env jb w))
       \<and> wa_calls (process_job env jb w) = wa_calls w
       \<and> campaign_targets (process_job env jb w) = campaign_targets w"
    by (simp add: e markDone_done)
  have tk: "let wp = fold (process_job env) pre
                            (w\<lparr>clock_reads := Suc (Suc (clock_reads w)), queue := q'\<rparr>)
               in campaigns wp = campaigns w
                \<and> process_job env jb wp = wp\<lparr>queue := markDone (j_id jb) (queue wp)\<rparr>
                \<and> tick env w =
                    sweep (fold (process_job env) post (wp\<lparr>queue := markDone (j_id jb) (queue wp)\<rparr>))
                \<and> j_id jb \<in> q_id ` set (queue (tick env w))
                \<and> list_all (\<lambda>r. q_id r = j_id jb \<longrightarrow> q_status r = ''done'') (queue (tick env w))
                \<and> new_calls w (tick env w) =
                    concat (map (job_requests env (campaigns w) (campaign_targets w)) (pre @ post))"
    if win: "inWindow (clock env (clock_reads w)) (WINDOW env)"
      and dq: "distinct (map q_id (queue w))"
      and fb: "fetchBatch (d_epoch (clock env (Suc (clock_reads w)))) (BATCH_SIZE env) (queue w)
              = (pre @ jb # post, q')"
  proof -
    define w2 where "w2 = w\<lparr>clock_reads := Suc (Suc (clock_reads w)), queue := q'\<rparr>"
    define wp where "wp = fold (process_job env) pre w2"
    define wd where "wd = wp\<lparr>queue := markDone (j_id jb) (queue wp)\<rparr>"
    have c1: "campaigns wp = campaigns w"
      by (simp add: wp_def w2_def fold_process_job_campaigns)
    have c2: "process_job env jb wp = wd"
      unfolding wd_def using assms by (intro process_job_gate[of jb wp camp]) (simp_all add: c1)
    have tick: "tick env w = sweep (fold (process_job env) (pre @ jb # post) w2)"
      unfolding w2_def by (rule tick_claimed[OF win fb]) simp
    have c3: "tick env w = sweep (fold (process_job env) post wd)"
      by (simp add: tick wp_def[symmetric] c2)
    have ids: "map j_id (pre @ jb # post) = map q_id (select_batch (d_epoch (clock env (Suc (clock_reads w)))) (BATCH_SIZE env) (queue w))"
      using fetchBatch_ids[of "d_epoch (clock env (Suc (clock_reads w)))" "BATCH_SIZE env" "queue w"]
      by (simp add: fb)
    have "distinct (map j_id (pre @ jb # post))"
      unfolding ids using dq by (rule select_batch_distinct)
    then have np: "j_id jb \<notin> j_id ` set post" by auto
    have q': "q' = snd (fetchBatch (d_epoch (clock env (Suc (clock_reads w)))) (BATCH_SIZE env) (queue w))"
      by (simp add: fb)
    have "j_id jb \<in> j_id ` set (fst (fetchBatch (d_epoch (clock env (Suc (clock_reads w)))) (BATCH_SIZE env) (queue w)))"
      by (simp add: fb)
    from fetched_was_queued[OF this] obtain r where r: "r \<in> set (queue w)" "q_id r = j_id jb"
      by (elim bexE conjE)
    have "q_id r \<in> q_id ` set (queue w)" using r(1) by (rule imageI)
    then have inq: "j_id jb \<in> set (map q_id (queue w))" by (simp add: r(2))
    have "map q_id (queue (tick env w)) = map q_id (queue wd)"
      by (simp add: c3 sweep_frame fold_process_job_queue_ids)
    also have "\<dots> = map q_id (queue wp)" by (simp add: wd_def markDone_ids)
    also have "\<dots> = map q_id q'" by (simp add: wp_def fold_process_job_queue_ids w2_def)
    also have "\<dots> = map q_id (queue w)" unfolding q' by (rule fetchBatch_queue_ids)
    finally have qi: "map q_id (queue (tick env w)) = map q_id (queue w)" .
    have "set (map q_id (queue (tick env w))) = set (map q_id (queue w))" by (simp only: qi)
    then have c4: "j_id jb \<in> q_id ` set (queue (tick env w))" using inq by simp
    have "filter (\<lambda>r. q_id r = j_id jb) (queue (tick env w)) = filter (\<lambda>r. q_id r = j_id jb) (queue wd)"
      using np by (simp add: c3 sweep_frame fold_process_job_queue_other)
    moreover have "list_all (\<lambda>r. q_id r = j_id jb \<longrightarrow> q_status r = ''done'') (queue wd)"
      by (simp add: wd_def markDone_done)
    ultimately have c5: "list_all (\<lambda>r. q_id r = j_id jb \<longrightarrow> q_status r = ''done'') (queue (tick env w))"
      by (simp add: all_filter_done)
    have g: "job_requests env (campaigns w) (campaign_targets w) jb = []"
      using assms by (rule job_requests_gated)
    have w2f: "campaigns w2 = campaigns w" "campaign_targets w2 = campaign_targets w"
      "wa_calls w2 = wa_calls w" by (simp_all add: w2_def)
    have "wa_calls (tick env w) = wa_calls (fold (process_job env) (pre @ jb # post) w2)"
      by (simp only: tick sweep_frame)
    also have "\<dots> = wa_calls w2 @
        concat (map (job_requests env (campaigns w2) (campaign_targets w2)) (pre @ jb # post))"
      by (rule fold_process_job_requests)
    finally have "wa_calls (tick env w) =
            wa_calls w @ concat (map (job_requests env (campaigns w) (campaign_targets w)) (pre @ jb # post))"
      unfolding w2f .
    then have c6: "new_calls w (tick env w) =
                    concat (map (job_requests env (campaigns w) (campaign_targets w)) (pre @ post))"
      by (simp add: new_calls_def g)
    show ?thesis
      unfolding Let_def wp_def[symmetric] w2_def[symmetric] wd_def[symmetric]
      by (intro conjI c1 c2 c3 c4 c5 c6)
  qed
  show ?thesis using step tk by blast
qed

theorem worker_drops_entry_of_gated_campaign_witness:
  "find (\<lambda>c. c_id c = j_campaign_id (job_of (qrow 3 2))) (campaigns world_twin)
       = Some (camp2\<lparr>c_template_name := ''promo''\<rparr>)
   \<and> c_status (camp2\<lparr>c_template_name := ''promo''\<rparr>) \<in> {''paused'', ''canceled'', ''done'', ''error''}
   \<and> inWindow (clock wenv (clock_reads world_twin)) (WINDOW wenv)
   \<and> distinct (map q_id (queue world_twin))
   \<and> fetchBatch (d_epoch (clock wenv (Suc (clock_reads world_twin)))) (BATCH_SIZE wenv) (queue world_twin)
       = ([job_of (qrow 1 1), job_of (qrow 2 1)] @ job_of (qrow 3 2) # [job_of (qrow 4 2)],
          snd (fetchBatch 1001 20 (queue world_twin)))
   \<and> process_job wenv (job_of (qrow 3 2)) world_twin
       = world_twin\<lparr>queue := markDone (j_id (job_of (qrow 3 2))) (queue world_twin)\<rparr>
   \<and> wa_calls (process_job wenv (job_of (qrow 3 2)) world_twin) = wa_calls world_twin
   \<and> campaign_targets (process_job wenv (job_of (qrow 3 2)) world_twin) = campaign_targets world_twin
   \<and> (let wp = fold (process_job wenv) [job_of (qrow 1 1), job_of (qrow 2 1)]
                  (world_twin\<lparr>clock_reads := Suc (Suc (clock_reads world_twin)),
                              queue := snd (fetchBatch 1001 20 (queue world_twin))\<rparr>)
       in campaigns wp = campaigns world_twin
        \<and> process_job wenv (job_of (qrow 3 2)) wp
            = wp\<lparr>queue := markDone (j_id (job_of (qrow 3 2))) (queue wp)\<rparr>
        \<and> tick wenv world_twin =
            sweep (fold (process_job wenv) [job_of (qrow 4 2)]
                     (wp\<lparr>queue := markDone (j_id (job_of (qrow 3 2))) (queue wp)\<rparr>))
        \<and> j_id (job_of (qrow 3 2)) \<in> q_id ` set (queue (tick wenv world_twin))
        \<and> list_all (\<lambda>r. q_id r = j_id (job_of (qrow 3 2)) \<longrightarrow> q_status r = ''done'')
             (queue (tick wenv world_twin))
        \<and> new_calls world_twin (tick wenv world_twin) =
            concat (map (job_requests wenv (campaigns world_twin) (campaign_targets world_twin))
                      ([job_of (qrow 1 1), job_of (qrow 2 1)] @ [job_of (qrow 4 2)])))
   \<and> map q_status (queue (tick wenv world_twin)) = [''done'', ''done'', ''done'', ''done'']
   \<and> map rq_to (new_calls world_twin (tick wenv world_twin)) = [''51918131082'']
   \<and> map t_status (campaign_targets (tick wenv world_twin)) = [''sent'', ''failed'', ''queued'', ''queued'']"
proof -
  have f: "find (\<lambda>c. c_id c = j_campaign_id (job_of (qrow 3 2))) (campaigns world_twin)
       = Some (camp2\<lparr>c_template_name := ''promo''\<rparr>)"
    by code_simp
  have s: "c_status (camp2\<lparr>c_template_name := ''promo''\<rparr>) \<in> {''paused'', ''canceled'', ''done'', ''error''}"
    by (simp add: camp2_def)
  have win: "inWindow (clock wenv (clock_reads world_twin)) (WINDOW wenv)" by code_simp
  have dq: "distinct (map q_id (queue world_twin))" by code_simp
  have fb: "fetchBatch (d_epoch (clock wenv (Suc (clock_reads world_twin)))) (BATCH_SIZE wenv) (queue world_twin)
       = ([job_of (qrow 1 1), job_of (qrow 2 1)] @ job_of (qrow 3 2) # [job_of (qrow 4 2)],
          snd (fetchBatch 1001 20 (queue world_twin)))"
    by code_simp
  have m1: "map q_status (queue (tick wenv world_twin)) = [''done'', ''done'', ''done'', ''done'']"
    by code_simp
  have m2: "map rq_to (new_calls world_twin (tick wenv world_twin)) = [''51918131082'']"
    by code_simp
  have m3: "map t_status (campaign_targets (tick wenv world_twin)) = [''sent'', ''failed'', ''queued'', ''queued'']"
    by code_simp
  note t = worker_drops_entry_of_gated_campaign[OF f s,
      of wenv "[job_of (qrow 1 1), job_of (qrow 2 1)]" "[job_of (qrow 4 2)]"
         "snd (fetchBatch 1001 20 (queue world_twin))"]
  note t1 = conjunct1[OF t]
  note t3 = conjunct1[OF conjunct2[OF conjunct2[OF t]]]
  note t4 = conjunct1[OF conjunct2[OF conjunct2[OF conjunct2[OF t]]]]
  note t5 = mp[OF conjunct2[OF conjunct2[OF conjunct2[OF conjunct2[OF t]]]], OF conjI[OF win conjI[OF dq fb]]]
  show ?thesis
    by (intro conjI f s win dq fb m1 m2 m3 t1 t3 t4 t5)
qed


end
